theory Spec2Isabelle
  imports Main
begin

section \<open>JavaScript values\<close>

text \<open>
  The builders of \<^verbatim>\<open>mini-kuber.js\<close> read their options with the idiom
  \<^verbatim>\<open>options.x || default\<close>, so what a builder stores depends on the truthiness of a
  dynamically typed value. Values are therefore modelled as they are in the program:
  \<^item> numbers are the integers (replica counts, ports, percentages); fractions, NaN and
    magnitudes beyond the safe integers are outside the model;
  \<^item> a string is the list of the bytes of its UTF-8 encoding, so it denotes well-formed
    Unicode text;
  \<^item> an object is the list of its own properties in property order, with distinct keys.
\<close>

datatype jsval =
    JUndefined
  | JNull
  | JBool bool
  | JNum int
  | JStr string
  | JArr "jsval list"
  | JObj "(string \<times> jsval) list"

type_synonym obj = "(string \<times> jsval) list"

datatype error = Error (message: string)

text \<open>ToBoolean: what \<^verbatim>\<open>if (v)\<close>, \<^verbatim>\<open>a || b\<close> and \<^verbatim>\<open>a && b\<close> test.\<close>

fun truthy :: "jsval \<Rightarrow> bool" where
  "truthy JUndefined = False"
| "truthy JNull = False"
| "truthy (JBool b) = b"
| "truthy (JNum n) = (n \<noteq> 0)"
| "truthy (JStr s) = (s \<noteq> [])"
| "truthy (JArr xs) = True"
| "truthy (JObj kvs) = True"

text \<open>\<^verbatim>\<open>a || b\<close>\<close>

definition js_or :: "jsval \<Rightarrow> jsval \<Rightarrow> jsval" where
  "js_or a b = (if truthy a then a else b)"

text \<open>A parameter with a default value, \<^verbatim>\<open>options = {}\<close>: the default replaces undefined only.\<close>

definition default_param :: "jsval \<Rightarrow> jsval \<Rightarrow> jsval" where
  "default_param v d = (if v = JUndefined then d else v)"

text \<open>
  Reading a property \<^verbatim>\<open>v.k\<close> of a value that is neither undefined nor null: an own
  property of an object, undefined otherwise (none of the keys the program reads is a
  property of a string, number, boolean or array). The caller raises the TypeError for
  undefined and null.
\<close>

fun js_prop :: "jsval \<Rightarrow> string \<Rightarrow> jsval" where
  "js_prop (JObj kvs) k = (case map_of kvs k of Some v \<Rightarrow> v | None \<Rightarrow> JUndefined)"
| "js_prop v k = JUndefined"

definition nullish :: "jsval \<Rightarrow> bool" where
  "nullish v = (v = JUndefined \<or> v = JNull)"

text \<open>
  Setting an own property: an existing key keeps its place, a new key is appended. This is
  what an object literal and a spread do for every key, and what an assignment
  \<^verbatim>\<open>o.k = v\<close> does under a key written in the program.
\<close>

fun obj_set :: "obj \<Rightarrow> string \<Rightarrow> jsval \<Rightarrow> obj" where
  "obj_set [] k v = [(k, v)]"
| "obj_set ((k', v') # kvs) k v =
     (if k' = k then (k, v) # kvs else (k', v') # obj_set kvs k v)"

text \<open>
  The assignment \<^verbatim>\<open>o[k] = v\<close> to a plain object \<^verbatim>\<open>o\<close> under a key that comes from the
  data. For the key \<^verbatim>\<open>__proto__\<close> the assignment does not reach \<^verbatim>\<open>o\<close>: it finds the accessor
  that every plain object inherits from \<^verbatim>\<open>Object.prototype\<close> and calls its setter, which
  ignores a primitive value (and would change the prototype for an object or null). In
  either case \<^verbatim>\<open>o\<close> gains no own property. Under every other key the property is set.
\<close>

definition assign_prop :: "obj \<Rightarrow> string \<Rightarrow> jsval \<Rightarrow> obj" where
  "assign_prop ob k v = (if k = ''__proto__'' then ob else obj_set ob k v)"

text \<open>
  The decimal text of a number, as \<^verbatim>\<open>String(n)\<close> and a template literal print a safe
  integer: the digits, most significant first, after a minus sign for a negative number.
\<close>

definition digit_char :: "nat \<Rightarrow> char" where
  "digit_char d = ''0123456789'' ! d"

fun digits :: "nat \<Rightarrow> string" where
  "digits n = (if 10 \<le> n then digits (n div 10) @ [digit_char (n mod 10)] else [digit_char n])"

declare digits.simps [simp del]

definition number_text :: "int \<Rightarrow> string" where
  "number_text i = (if 0 \<le> i then digits (nat i) else CHR ''-'' # digits (nat (- i)))"

fun join_comma :: "string list \<Rightarrow> string" where
  "join_comma [] = []"
| "join_comma [s] = s"
| "join_comma (s # t # ss) = s @ '','' @ join_comma (t # ss)"

text \<open>
  ToString, as \<^verbatim>\<open>String(v)\<close> and a template literal \<^verbatim>\<open>`${v}`\<close> apply it: a plain object
  prints as \<^verbatim>\<open>[object Object]\<close>, an array joins its elements with commas, printing
  undefined and null elements as the empty string.
\<close>

fun js_String :: "jsval \<Rightarrow> string" where
  "js_String JUndefined = ''undefined''"
| "js_String JNull = ''null''"
| "js_String (JBool b) = (if b then ''true'' else ''false'')"
| "js_String (JNum n) = number_text n"
| "js_String (JStr s) = s"
| "js_String (JArr xs) =
     join_comma (map (\<lambda>x. if x = JUndefined \<or> x = JNull then [] else js_String x) xs)"
| "js_String (JObj kvs) = ''[object Object]''"

text \<open>
  The own enumerable properties of a value, as object spread \<^verbatim>\<open>{...v}\<close>,
  \<^verbatim>\<open>Object.keys\<close> and \<^verbatim>\<open>Object.entries\<close> enumerate them: the properties of an object, the
  indexed elements of an array, the indexed characters of a string (exact for ASCII
  text), nothing for the other primitives.
\<close>

fun own_entries :: "jsval \<Rightarrow> obj" where
  "own_entries (JObj kvs) = kvs"
| "own_entries (JArr xs) = map (\<lambda>(i, x). (digits i, x)) (enumerate 0 xs)"
| "own_entries (JStr s) = map (\<lambda>(i, c). (digits i, JStr [c])) (enumerate 0 s)"
| "own_entries v = []"

text \<open>An object literal followed by a spread: \<^verbatim>\<open>{ k1: v1, ..., ...o }\<close>.\<close>

definition spread_into :: "obj \<Rightarrow> obj \<Rightarrow> obj" where
  "spread_into base extra = fold (\<lambda>(k, v) acc. obj_set acc k v) extra base"

section \<open>Resources\<close>

text \<open>\<^verbatim>\<open>class Resource\<close>: the fields every resource carries.\<close>

record resource =
  kind :: string
  name :: jsval
  namespace :: jsval
  labels :: obj
  annotations :: obj

definition Resource :: "string \<Rightarrow> jsval \<Rightarrow> jsval \<Rightarrow> resource" where
  "Resource k nm ns =
     \<lparr> kind = k, name = nm, namespace = default_param ns (JStr ''default''),
       labels = [(''app'', nm), (''managed-by'', JStr ''mini-kuber'')],
       annotations = [] \<rparr>"

record deployment = resource +
  d_image :: jsval
  d_replicas :: jsval
  d_port :: jsval
  d_env :: jsval
  d_cpuRequest :: jsval
  d_memoryRequest :: jsval
  d_cpuLimit :: jsval
  d_memoryLimit :: jsval

record service = resource +
  s_target :: jsval
  s_port :: jsval
  s_targetPort :: jsval
  s_type :: jsval

record statefulset = resource +
  ss_image :: jsval
  ss_replicas :: jsval
  ss_port :: jsval
  ss_storage :: jsval
  ss_storageClass :: jsval
  ss_env :: jsval

record configmap = resource +
  cm_data :: jsval

record secret = resource +
  sec_data :: obj
  sec_type :: jsval

record hpa = resource +
  h_target :: jsval
  h_minReplicas :: jsval
  h_maxReplicas :: jsval
  h_cpuPercent :: jsval

datatype res =
    RDeployment deployment
  | RService service
  | RStatefulSet statefulset
  | RConfigMap configmap
  | RSecret secret
  | RHorizontalPodAutoscaler hpa


text \<open>
  A resource instance seen as an object: its own fields, as \<^verbatim>\<open>deployment.name\<close>,
  \<^verbatim>\<open>target.port\<close> or \<^verbatim>\<open>options.dryRun\<close> read them. The data of a configuration or secret
  bundle is the required mapping argument of its constructor.
\<close>

definition base_fields :: "'a resource_scheme \<Rightarrow> obj" where
  "base_fields r =
     [(''kind'', JStr (kind r)), (''name'', name r), (''namespace'', namespace r),
      (''labels'', JObj (labels r)), (''annotations'', JObj (annotations r))]"

fun res_fields :: "res \<Rightarrow> obj" where
  "res_fields (RDeployment d) = base_fields d @
     [(''image'', d_image d), (''replicas'', d_replicas d), (''port'', d_port d),
      (''env'', d_env d), (''cpuRequest'', d_cpuRequest d),
      (''memoryRequest'', d_memoryRequest d), (''cpuLimit'', d_cpuLimit d),
      (''memoryLimit'', d_memoryLimit d)]"
| "res_fields (RService s) = base_fields s @
     [(''target'', s_target s), (''port'', s_port s), (''targetPort'', s_targetPort s),
      (''type'', s_type s)]"
| "res_fields (RStatefulSet t) = base_fields t @
     [(''image'', ss_image t), (''replicas'', ss_replicas t), (''port'', ss_port t),
      (''storage'', ss_storage t), (''storageClass'', ss_storageClass t),
      (''env'', ss_env t)]"
| "res_fields (RConfigMap c) = base_fields c @ [(''data'', cm_data c)]"
| "res_fields (RSecret c) = base_fields c @
     [(''data'', JObj (sec_data c)), (''type'', sec_type c)]"
| "res_fields (RHorizontalPodAutoscaler h) = base_fields h @
     [(''target'', h_target h), (''minReplicas'', h_minReplicas h),
      (''maxReplicas'', h_maxReplicas h), (''cpuPercent'', h_cpuPercent h)]"

definition res_prop :: "res \<Rightarrow> string \<Rightarrow> jsval" where
  "res_prop r k = js_prop (JObj (res_fields r)) k"

text \<open>An argument that is either a resource instance or a plain value.\<close>

datatype arg = Res res | Val jsval

fun arg_nullish :: "arg \<Rightarrow> bool" where
  "arg_nullish (Res r) = False"
| "arg_nullish (Val v) = nullish v"

fun arg_prop0 :: "arg \<Rightarrow> string \<Rightarrow> jsval" where
  "arg_prop0 (Res r) k = res_prop r k"
| "arg_prop0 (Val v) k = js_prop v k"

definition arg_prop :: "arg \<Rightarrow> string \<Rightarrow> error + jsval" where
  "arg_prop a k =
     (if arg_nullish a
      then Inl (Error (''Cannot read properties of undefined or null, reading '' @ k))
      else Inr (arg_prop0 a k))"

fun arg_truthy :: "arg \<Rightarrow> bool" where
  "arg_truthy (Res r) = True"
| "arg_truthy (Val v) = truthy v"

text \<open>\<^verbatim>\<open>typeof a === 'object'\<close>: objects, arrays and null.\<close>

fun typeof_object :: "arg \<Rightarrow> bool" where
  "typeof_object (Res r) = True"
| "typeof_object (Val JNull) = True"
| "typeof_object (Val (JArr xs)) = True"
| "typeof_object (Val (JObj kvs)) = True"
| "typeof_object (Val v) = False"

section \<open>Constructors\<close>

text \<open>
  Every constructor and helper declares \<^verbatim>\<open>options = {}\<close> and then reads a property of
  \<^verbatim>\<open>options\<close>, which raises a TypeError when \<^verbatim>\<open>options\<close> is null.
\<close>

definition opts_of :: "jsval \<Rightarrow> error + jsval" where
  "opts_of options0 =
     (let options = default_param options0 (JObj [])
      in if nullish options
         then Inl (Error ''Cannot read properties of null'')
         else Inr options)"

definition opt_namespace :: "jsval \<Rightarrow> jsval" where
  "opt_namespace options = js_or (js_prop options ''namespace'') (JStr ''default'')"

definition Deployment :: "jsval \<Rightarrow> jsval \<Rightarrow> error + deployment" where
  "Deployment nm options0 =
     (case opts_of options0 of
        Inl e \<Rightarrow> Inl e
      | Inr options \<Rightarrow>
          let base = Resource ''Deployment'' nm (opt_namespace options)
          in Inr \<lparr> kind = kind base, name = name base, namespace = namespace base,
                   labels = (if js_prop options ''autoHeal'' \<noteq> JBool False
                             then obj_set (labels base) ''auto-heal'' (JStr ''true'')
                             else labels base),
                   annotations = annotations base,
                   d_image = js_or (js_prop options ''image'') (JStr ''nginx:latest''),
                   d_replicas = js_or (js_prop options ''replicas'') (JNum 1),
                   d_port = js_prop options ''port'',
                   d_env = js_or (js_prop options ''env'') (JObj []),
                   d_cpuRequest = js_or (js_prop options ''cpuRequest'') (JStr ''100m''),
                   d_memoryRequest = js_or (js_prop options ''memoryRequest'') (JStr ''128Mi''),
                   d_cpuLimit = js_or (js_prop options ''cpuLimit'') (JStr ''500m''),
                   d_memoryLimit = js_or (js_prop options ''memoryLimit'') (JStr ''512Mi'') \<rparr>)"

text \<open>\<^verbatim>\<open>typeof target === 'string' ? target : target.name\<close>\<close>

fun target_of :: "arg \<Rightarrow> error + jsval" where
  "target_of (Val (JStr s)) = Inr (JStr s)"
| "target_of a = arg_prop a ''name''"

definition Service :: "jsval \<Rightarrow> arg \<Rightarrow> jsval \<Rightarrow> error + service" where
  "Service nm tgt options0 =
     (case opts_of options0 of
        Inl e \<Rightarrow> Inl e
      | Inr options \<Rightarrow>
          (case target_of tgt of
             Inl e \<Rightarrow> Inl e
           | Inr t \<Rightarrow>
               let base = Resource ''Service'' nm (opt_namespace options);
                   port = js_or (js_prop options ''port'') (JNum 80)
               in Inr \<lparr> kind = kind base, name = name base, namespace = namespace base,
                        labels = labels base, annotations = annotations base,
                        s_target = t,
                        s_port = port,
                        s_targetPort = js_or (js_prop options ''targetPort'')
                                         (js_or (arg_prop0 tgt ''port'') port),
                        s_type = js_or (js_prop options ''type'') (JStr ''ClusterIP'') \<rparr>))"

definition StatefulSet :: "jsval \<Rightarrow> jsval \<Rightarrow> error + statefulset" where
  "StatefulSet nm options0 =
     (case opts_of options0 of
        Inl e \<Rightarrow> Inl e
      | Inr options \<Rightarrow>
          let base = Resource ''StatefulSet'' nm (opt_namespace options)
          in Inr \<lparr> kind = kind base, name = name base, namespace = namespace base,
                   labels = labels base, annotations = annotations base,
                   ss_image = js_prop options ''image'',
                   ss_replicas = js_or (js_prop options ''replicas'') (JNum 1),
                   ss_port = js_prop options ''port'',
                   ss_storage = js_or (js_prop options ''storage'') (JStr ''10Gi''),
                   ss_storageClass = js_or (js_prop options ''storageClass'') (JStr ''standard''),
                   ss_env = js_or (js_prop options ''env'') (JObj []) \<rparr>)"

definition ConfigMap :: "jsval \<Rightarrow> jsval \<Rightarrow> jsval \<Rightarrow> error + configmap" where
  "ConfigMap nm dat options0 =
     (case opts_of options0 of
        Inl e \<Rightarrow> Inl e
      | Inr options \<Rightarrow>
          let base = Resource ''ConfigMap'' nm (opt_namespace options)
          in Inr \<lparr> kind = kind base, name = name base, namespace = namespace base,
                   labels = labels base, annotations = annotations base,
                   cm_data = dat \<rparr>)"

definition Secret :: "jsval \<Rightarrow> obj \<Rightarrow> jsval \<Rightarrow> error + secret" where
  "Secret nm dat options0 =
     (case opts_of options0 of
        Inl e \<Rightarrow> Inl e
      | Inr options \<Rightarrow>
          let base = Resource ''Secret'' nm (opt_namespace options)
          in Inr \<lparr> kind = kind base, name = name base, namespace = namespace base,
                   labels = labels base, annotations = annotations base,
                   sec_data = dat,
                   sec_type = js_or (js_prop options ''type'') (JStr ''Opaque'') \<rparr>)"

definition HorizontalPodAutoscaler :: "jsval \<Rightarrow> arg \<Rightarrow> jsval \<Rightarrow> error + hpa" where
  "HorizontalPodAutoscaler nm tgt options0 =
     (case opts_of options0 of
        Inl e \<Rightarrow> Inl e
      | Inr options \<Rightarrow>
          (case target_of tgt of
             Inl e \<Rightarrow> Inl e
           | Inr t \<Rightarrow>
               let base = Resource ''HorizontalPodAutoscaler'' nm (opt_namespace options)
               in Inr \<lparr> kind = kind base, name = name base, namespace = namespace base,
                        labels = labels base, annotations = annotations base,
                        h_target = t,
                        h_minReplicas = js_or (js_prop options ''minReplicas'') (JNum 1),
                        h_maxReplicas = js_or (js_prop options ''maxReplicas'') (JNum 10),
                        h_cpuPercent = js_or (js_prop options ''cpuPercent'') (JNum 80) \<rparr>))"


section \<open>Base64\<close>

text \<open>
  \<^verbatim>\<open>Buffer.from(s).toString('base64')\<close> belongs to the runtime, not to the repository: it
  takes the bytes of the UTF-8 encoding of \<^verbatim>\<open>s\<close> and renders them in the base64 encoding
  of RFC 4648, section 4 (standard alphabet, padded with \<^verbatim>\<open>=\<close>). A buffer is a list of
  bytes (\<^typ>\<open>char\<close> is the type of bytes); a string already is the list of its UTF-8
  bytes, which \<open>Buffer_from\<close> hands over.
\<close>

type_synonym buffer = "char list"

definition Buffer_from :: "string \<Rightarrow> buffer" where
  "Buffer_from s = s"

definition b64_alphabet :: "char list" where
  "b64_alphabet = ''ABCDEFGHIJKLMNOPQRSTUVWXYZabcdefghijklmnopqrstuvwxyz0123456789+/''"

definition b64_char :: "nat \<Rightarrow> char" where
  "b64_char n = b64_alphabet ! n"

fun toString_base64 :: "buffer \<Rightarrow> string" where
  "toString_base64 [] = []"
| "toString_base64 [a] =
     (let x = (of_char a :: nat)
      in [b64_char (x div 4), b64_char ((x mod 4) * 16), CHR ''='', CHR ''=''])"
| "toString_base64 [a, b] =
     (let x = (of_char a :: nat); y = (of_char b :: nat)
      in [b64_char (x div 4), b64_char ((x mod 4) * 16 + y div 16),
          b64_char ((y mod 16) * 4), CHR ''=''])"
| "toString_base64 (a # b # c # rest) =
     (let x = (of_char a :: nat); y = (of_char b :: nat); z = (of_char c :: nat)
      in [b64_char (x div 4), b64_char ((x mod 4) * 16 + y div 16),
          b64_char ((y mod 16) * 4 + z div 64), b64_char (z mod 64)]
         @ toString_base64 rest)"

text \<open>The decoder of the same RFC: groups of four characters, padding only in the last.\<close>

fun index_of :: "'a list \<Rightarrow> 'a \<Rightarrow> nat option" where
  "index_of [] x = None"
| "index_of (y # ys) x = (if x = y then Some 0 else map_option Suc (index_of ys x))"

definition b64_index :: "char \<Rightarrow> nat option" where
  "b64_index c = index_of b64_alphabet c"

fun from_base64 :: "string \<Rightarrow> buffer option" where
  "from_base64 [] = Some []"
| "from_base64 (c0 # c1 # c2 # c3 # rest) =
     (case (b64_index c0, b64_index c1) of
        (Some s0, Some s1) \<Rightarrow>
          if c2 = CHR ''='' \<and> c3 = CHR ''='' \<and> rest = []
          then Some [char_of (s0 * 4 + s1 div 16)]
          else (case b64_index c2 of
                  None \<Rightarrow> None
                | Some s2 \<Rightarrow>
                    if c3 = CHR ''='' \<and> rest = []
                    then Some [char_of (s0 * 4 + s1 div 16),
                               char_of ((s1 mod 16) * 16 + s2 div 4)]
                    else (case b64_index c3 of
                            None \<Rightarrow> None
                          | Some s3 \<Rightarrow>
                              map_option
                                (\<lambda>bs. char_of (s0 * 4 + s1 div 16)
                                       # char_of ((s1 mod 16) * 16 + s2 div 4)
                                       # char_of ((s2 mod 4) * 64 + s3) # bs)
                                (from_base64 rest)))
      | _ \<Rightarrow> None)"
| "from_base64 cs = None"

text \<open>Reading a buffer back as UTF-8 text.\<close>

definition toString_utf8 :: "buffer \<Rightarrow> string" where
  "toString_utf8 b = b"

section \<open>Serialization to documents\<close>

text \<open>
  \<^verbatim>\<open>Object.entries(env).map(([name, value]) => ({ name, value: String(value) }))\<close>
\<close>

definition env_list :: "jsval \<Rightarrow> jsval" where
  "env_list env =
     JArr (map (\<lambda>(n, v). JObj [(''name'', JStr n), (''value'', JStr (js_String v))])
             (own_entries env))"

definition with_ports_env :: "obj \<Rightarrow> jsval \<Rightarrow> jsval \<Rightarrow> obj" where
  "with_ports_env container port env =
     (let c1 = (if truthy port
                then obj_set container ''ports'' (JArr [JObj [(''containerPort'', port)]])
                else container)
      in if length (own_entries env) > 0 then obj_set c1 ''env'' (env_list env) else c1)"

definition Deployment_toYAML :: "deployment \<Rightarrow> jsval" where
  "Deployment_toYAML d =
     (let container = with_ports_env
            [(''name'', name d), (''image'', d_image d),
             (''resources'', JObj
                [(''requests'', JObj [(''cpu'', d_cpuRequest d), (''memory'', d_memoryRequest d)]),
                 (''limits'', JObj [(''cpu'', d_cpuLimit d), (''memory'', d_memoryLimit d)])])]
            (d_port d) (d_env d)
      in JObj
        [(''apiVersion'', JStr ''apps/v1''),
         (''kind'', JStr ''Deployment''),
         (''metadata'', JObj
            [(''name'', name d), (''namespace'', namespace d),
             (''labels'', JObj (labels d)), (''annotations'', JObj (annotations d))]),
         (''spec'', JObj
            [(''replicas'', d_replicas d),
             (''selector'', JObj [(''matchLabels'', JObj [(''app'', name d)])]),
             (''template'', JObj
                [(''metadata'', JObj
                    [(''labels'', JObj (spread_into [(''app'', name d)] (labels d)))]),
                 (''spec'', JObj [(''containers'', JArr [JObj container])])])])])"

definition Service_toYAML :: "service \<Rightarrow> jsval" where
  "Service_toYAML s =
     JObj
       [(''apiVersion'', JStr ''v1''),
        (''kind'', JStr ''Service''),
        (''metadata'', JObj
           [(''name'', name s), (''namespace'', namespace s),
            (''labels'', JObj (labels s)), (''annotations'', JObj (annotations s))]),
        (''spec'', JObj
           [(''selector'', JObj [(''app'', s_target s)]),
            (''ports'', JArr [JObj [(''port'', s_port s), (''targetPort'', s_targetPort s),
                                    (''protocol'', JStr ''TCP'')]]),
            (''type'', s_type s)])]"

definition StatefulSet_toYAML :: "statefulset \<Rightarrow> jsval" where
  "StatefulSet_toYAML t =
     (let storage_name = JStr (js_String (name t) @ ''-storage'');
          container = with_ports_env
            [(''name'', name t), (''image'', ss_image t),
             (''volumeMounts'', JArr
                [JObj [(''name'', storage_name), (''mountPath'', JStr ''/var/lib/data'')]])]
            (ss_port t) (ss_env t)
      in JObj
        [(''apiVersion'', JStr ''apps/v1''),
         (''kind'', JStr ''StatefulSet''),
         (''metadata'', JObj
            [(''name'', name t), (''namespace'', namespace t), (''labels'', JObj (labels t))]),
         (''spec'', JObj
            [(''serviceName'', name t),
             (''replicas'', ss_replicas t),
             (''selector'', JObj [(''matchLabels'', JObj [(''app'', name t)])]),
             (''template'', JObj
                [(''metadata'', JObj [(''labels'', JObj [(''app'', name t)])]),
                 (''spec'', JObj [(''containers'', JArr [JObj container])])]),
             (''volumeClaimTemplates'', JArr
                [JObj
                   [(''metadata'', JObj [(''name'', storage_name)]),
                    (''spec'', JObj
                       [(''accessModes'', JArr [JStr ''ReadWriteOnce'']),
                        (''storageClassName'', ss_storageClass t),
                        (''resources'', JObj
                           [(''requests'', JObj [(''storage'', ss_storage t)])])])]])])])"

definition ConfigMap_toYAML :: "configmap \<Rightarrow> jsval" where
  "ConfigMap_toYAML c =
     JObj
       [(''apiVersion'', JStr ''v1''),
        (''kind'', JStr ''ConfigMap''),
        (''metadata'', JObj
           [(''name'', name c), (''namespace'', namespace c), (''labels'', JObj (labels c))]),
        (''data'', cm_data c)]"

text \<open>
  The loop of \<^verbatim>\<open>Secret.toYAML\<close> over \<^verbatim>\<open>Object.entries(this.data)\<close>, which starts from the
  plain object \<^verbatim>\<open>encodedData = {}\<close> and assigns
  \<^verbatim>\<open>encodedData[key] = Buffer.from(String(value)).toString('base64')\<close> for every entry.
\<close>

definition encode_value :: "jsval \<Rightarrow> jsval" where
  "encode_value v = JStr (toString_base64 (Buffer_from (js_String v)))"

fun encode_entries :: "obj \<Rightarrow> obj \<Rightarrow> obj" where
  "encode_entries [] encodedData = encodedData"
| "encode_entries ((k, v) # kvs) encodedData =
     encode_entries kvs (assign_prop encodedData k (encode_value v))"

definition Secret_toYAML :: "secret \<Rightarrow> jsval" where
  "Secret_toYAML c =
     (let encodedData = encode_entries (sec_data c) []
      in JObj
        [(''apiVersion'', JStr ''v1''),
         (''kind'', JStr ''Secret''),
         (''metadata'', JObj
            [(''name'', name c), (''namespace'', namespace c), (''labels'', JObj (labels c))]),
         (''type'', sec_type c),
         (''data'', JObj encodedData)])"

definition HorizontalPodAutoscaler_toYAML :: "hpa \<Rightarrow> jsval" where
  "HorizontalPodAutoscaler_toYAML h =
     JObj
       [(''apiVersion'', JStr ''autoscaling/v2''),
        (''kind'', JStr ''HorizontalPodAutoscaler''),
        (''metadata'', JObj
           [(''name'', name h), (''namespace'', namespace h), (''labels'', JObj (labels h))]),
        (''spec'', JObj
           [(''scaleTargetRef'', JObj
               [(''apiVersion'', JStr ''apps/v1''), (''kind'', JStr ''Deployment''),
                (''name'', h_target h)]),
            (''minReplicas'', h_minReplicas h),
            (''maxReplicas'', h_maxReplicas h),
            (''metrics'', JArr
               [JObj
                  [(''type'', JStr ''Resource''),
                   (''resource'', JObj
                      [(''name'', JStr ''cpu''),
                       (''target'', JObj
                          [(''type'', JStr ''Utilization''),
                           (''averageUtilization'', h_cpuPercent h)])])]])])]"

fun toYAML :: "res \<Rightarrow> jsval" where
  "toYAML (RDeployment d) = Deployment_toYAML d"
| "toYAML (RService s) = Service_toYAML s"
| "toYAML (RStatefulSet t) = StatefulSet_toYAML t"
| "toYAML (RConfigMap c) = ConfigMap_toYAML c"
| "toYAML (RSecret c) = Secret_toYAML c"
| "toYAML (RHorizontalPodAutoscaler h) = HorizontalPodAutoscaler_toYAML h"

text \<open>Following a path of keys into a document, as \<^verbatim>\<open>doc.spec.replicas\<close> does.\<close>

fun at_path :: "jsval \<Rightarrow> string list \<Rightarrow> jsval" where
  "at_path v [] = v"
| "at_path v (k # ks) = at_path (js_prop v k) ks"

section \<open>Utility functions and patterns\<close>

definition serviceFor :: "res \<Rightarrow> jsval \<Rightarrow> error + service" where
  "serviceFor deployment options0 =
     (case opts_of options0 of
        Inl e \<Rightarrow> Inl e
      | Inr options \<Rightarrow>
          Service (JStr (js_String (res_prop deployment ''name'') @ ''-service''))
            (Res deployment)
            (JObj (spread_into
               [(''port'', js_or (js_prop options ''port'')
                             (js_or (res_prop deployment ''port'') (JNum 80))),
                (''type'', js_or (js_prop options ''type'') (JStr ''ClusterIP'')),
                (''namespace'', res_prop deployment ''namespace'')]
               (own_entries options))))"

definition autoscaleFor :: "res \<Rightarrow> jsval \<Rightarrow> error + hpa" where
  "autoscaleFor deployment options0 =
     (case opts_of options0 of
        Inl e \<Rightarrow> Inl e
      | Inr options \<Rightarrow>
          HorizontalPodAutoscaler (JStr (js_String (res_prop deployment ''name'') @ ''-hpa''))
            (Res deployment)
            (JObj (spread_into
               [(''minReplicas'', js_or (js_prop options ''minReplicas'') (JNum 1)),
                (''maxReplicas'', js_or (js_prop options ''maxReplicas'') (JNum 10)),
                (''cpuPercent'', js_or (js_prop options ''cpuPercent'') (JNum 80)),
                (''namespace'', res_prop deployment ''namespace'')]
               (own_entries options))))"

text \<open>
  \<^verbatim>\<open>webApp\<close> computes \<^verbatim>\<open>replicas * 3\<close>; the multiplication of the language, with its
  coercions, is the parameter \<open>js_times\<close>.
\<close>

definition webApp ::
  "(jsval \<Rightarrow> jsval \<Rightarrow> jsval) \<Rightarrow> jsval \<Rightarrow> jsval \<Rightarrow> jsval \<Rightarrow> error + res list" where
  "webApp js_times nm img options0 =
     (case opts_of options0 of
        Inl e \<Rightarrow> Inl e
      | Inr options \<Rightarrow>
          let replicas = js_or (js_prop options ''replicas'') (JNum 3);
              port = js_or (js_prop options ''port'') (JNum 80);
              autoScale = (js_prop options ''autoScale'' \<noteq> JBool False)
          in (case Deployment nm
                     (JObj [(''image'', img), (''replicas'', replicas), (''port'', port),
                            (''env'', js_prop options ''env''),
                            (''namespace'', js_prop options ''namespace'')]) of
                Inl e \<Rightarrow> Inl e
              | Inr app \<Rightarrow>
                  (case serviceFor (RDeployment app) (JObj [(''type'', JStr ''LoadBalancer'')]) of
                     Inl e \<Rightarrow> Inl e
                   | Inr svc \<Rightarrow>
                       if autoScale
                       then (case autoscaleFor (RDeployment app)
                                    (JObj [(''minReplicas'', replicas),
                                           (''maxReplicas'', js_times replicas (JNum 3))]) of
                               Inl e \<Rightarrow> Inl e
                             | Inr h \<Rightarrow>
                                 Inr [RDeployment app, RService svc, RHorizontalPodAutoscaler h])
                       else Inr [RDeployment app, RService svc])))"

definition database :: "jsval \<Rightarrow> jsval \<Rightarrow> jsval \<Rightarrow> error + res list" where
  "database nm img options0 =
     (case opts_of options0 of
        Inl e \<Rightarrow> Inl e
      | Inr options \<Rightarrow>
          (case StatefulSet nm
                  (JObj [(''image'', img),
                         (''storage'', js_or (js_prop options ''storage'') (JStr ''10Gi'')),
                         (''env'', js_prop options ''env''),
                         (''port'', js_prop options ''port''),
                         (''namespace'', js_prop options ''namespace'')]) of
             Inl e \<Rightarrow> Inl e
           | Inr db \<Rightarrow>
               (case serviceFor (RStatefulSet db) JUndefined of
                  Inl e \<Rightarrow> Inl e
                | Inr svc \<Rightarrow> Inr [RStatefulSet db, RService svc])))"


section \<open>Submission\<close>

text \<open>
  \<^verbatim>\<open>deploy\<close> acts on the world outside the program: it prints lines, writes and removes
  a file, and runs the external tool. The world is the file system, a map from paths to
  contents, together with the trace of everything done so far, in order. The printed
  lines are kept by what they say (their decoration is left out).
\<close>

datatype logline =
    Deploying nat
  | Announce string string
  | DryRunHeader
  | Separator
  | Dumped string
  | Successful
  | YamlRequired
  | KubectlNotFound
  | DeploymentError string

datatype event =
    Log logline
  | WriteFile string string
  | Exec string
  | Unlink string

record world =
  files :: "string \<rightharpoonup> string"
  trace :: "event list"

text \<open>
  What the program finds around it: whether \<^verbatim>\<open>require('js-yaml')\<close> succeeds, and then
  the \<^verbatim>\<open>dump\<close> function it provides (which may raise); the temporary directory, the clock
  and \<^verbatim>\<open>path.join\<close>; and the outcome of \<^verbatim>\<open>execSync\<close> for a command, given the files it
  can see (\<open>None\<close> when the command exits with status zero, the raised error otherwise).
\<close>

record runtime =
  require_yaml :: "error + (jsval \<Rightarrow> error + string)"
  tmpdir :: string
  now :: int
  path_join :: "string \<Rightarrow> string \<Rightarrow> string"
  execSync :: "string \<Rightarrow> (string \<rightharpoonup> string) \<Rightarrow> error option"

definition log :: "logline \<Rightarrow> world \<Rightarrow> world" where
  "log l w = w\<lparr>trace := trace w @ [Log l]\<rparr>"

definition writeFileSync :: "string \<Rightarrow> string \<Rightarrow> world \<Rightarrow> world" where
  "writeFileSync p content w =
     w\<lparr>files := (files w)(p \<mapsto> content), trace := trace w @ [WriteFile p content]\<rparr>"

text \<open>\<^verbatim>\<open>fs.unlinkSync\<close> raises when there is no such file.\<close>

definition unlinkSync :: "string \<Rightarrow> world \<Rightarrow> error option \<times> world" where
  "unlinkSync p w =
     (if files w p = None
      then (Some (Error (''ENOENT: no such file or directory, unlink '' @ p)), w)
      else (None, w\<lparr>files := (files w)(p := None), trace := trace w @ [Unlink p]\<rparr>))"

text \<open>\<^verbatim>\<open>s.includes(p)\<close>\<close>

fun starts_with :: "string \<Rightarrow> string \<Rightarrow> bool" where
  "starts_with s [] = True"
| "starts_with [] (p # ps) = False"
| "starts_with (c # cs) (p # ps) = (c = p \<and> starts_with cs ps)"

fun js_includes :: "string \<Rightarrow> string \<Rightarrow> bool" where
  "js_includes [] p = (p = [])"
| "js_includes (c # cs) p = (starts_with (c # cs) p \<or> js_includes cs p)"

text \<open>
  The first loop: \<^verbatim>\<open>resource.toYAML()\<close>, push, announce. An argument that is not a
  resource instance has no \<^verbatim>\<open>toYAML\<close> method, and the call raises.
\<close>

fun visit :: "arg list \<Rightarrow> jsval list \<Rightarrow> world \<Rightarrow> (error + jsval list) \<times> world" where
  "visit [] allYAML w = (Inr allYAML, w)"
| "visit (Val v # rs) allYAML w = (Inl (Error ''resource.toYAML is not a function''), w)"
| "visit (Res r # rs) allYAML w =
     visit rs (allYAML @ [toYAML r])
       (log (Announce (js_String (res_prop r ''kind'')) (js_String (res_prop r ''name''))) w)"

text \<open>The loop of the dry run: a separator line, then the dumped document.\<close>

fun print_docs ::
  "(jsval \<Rightarrow> error + string) \<Rightarrow> jsval list \<Rightarrow> world \<Rightarrow> error option \<times> world" where
  "print_docs dump [] w = (None, w)"
| "print_docs dump (yamlContent # rest) w =
     (let w1 = log Separator w
      in case dump yamlContent of
           Inl e \<Rightarrow> (Some e, w1)
         | Inr s \<Rightarrow> print_docs dump rest (log (Dumped s) w1))"

text \<open>
  The loop of the apply branch, with its index \<^verbatim>\<open>i\<close>:
  \<^verbatim>\<open>if (i > 0) yamlString += '---\n'; yamlString += yaml.dump(allYAML[i])\<close>.
\<close>

definition separator :: string where
  "separator = ''---'' @ [CHR 0x0A]"

fun concat_docs ::
  "(jsval \<Rightarrow> error + string) \<Rightarrow> jsval list \<Rightarrow> nat \<Rightarrow> string \<Rightarrow> error + string" where
  "concat_docs dump [] i yamlString = Inr yamlString"
| "concat_docs dump (yamlContent # rest) i yamlString =
     (let y1 = (if i > 0 then yamlString @ separator else yamlString)
      in case dump yamlContent of
           Inl e \<Rightarrow> Inl e
         | Inr s \<Rightarrow> concat_docs dump rest (i + 1) (y1 @ s))"

definition tempFile :: "runtime \<Rightarrow> string" where
  "tempFile rt = path_join rt (tmpdir rt) (''mini-kuber-'' @ number_text (now rt) @ ''.yaml'')"

text \<open>
  The body of the outer \<^verbatim>\<open>try\<close>. The inner \<^verbatim>\<open>try ... finally\<close> runs \<^verbatim>\<open>unlinkSync\<close> whether
  \<^verbatim>\<open>execSync\<close> returned or raised; an error raised by the \<^verbatim>\<open>finally\<close> block replaces the
  pending result.
\<close>

definition apply_body :: "runtime \<Rightarrow> jsval list \<Rightarrow> world \<Rightarrow> (error + bool) \<times> world" where
  "apply_body rt allYAML w =
     (case require_yaml rt of
        Inl e \<Rightarrow> (Inl e, w)
      | Inr dump \<Rightarrow>
          (case concat_docs dump allYAML 0 [] of
             Inl e \<Rightarrow> (Inl e, w)
           | Inr yamlString \<Rightarrow>
               let w1 = writeFileSync (tempFile rt) yamlString w;
                   cmd = ''kubectl apply -f '' @ tempFile rt;
                   w2 = w1\<lparr>trace := trace w1 @ [Exec cmd]\<rparr>;
                   pending = (case execSync rt cmd (files w1) of
                                Some e \<Rightarrow> (Inl e, w2)
                              | None \<Rightarrow> (Inr True, log Successful w2))
               in (case unlinkSync (tempFile rt) (snd pending) of
                     (Some e, w3) \<Rightarrow> (Inl e, w3)
                   | (None, w3) \<Rightarrow> (fst pending, w3))))"

text \<open>The \<^verbatim>\<open>catch\<close> block: one of three messages, chosen by the text of the error.\<close>

definition handler :: "error \<Rightarrow> world \<Rightarrow> world" where
  "handler e w =
     log (if js_includes (message e) ''js-yaml'' then YamlRequired
          else if js_includes (message e) ''kubectl'' then KubectlNotFound
          else DeploymentError (message e)) w"

text \<open>
  The first lines of \<^verbatim>\<open>deploy(...resources)\<close> look at the last argument:
  \<^verbatim>\<open>options = resources[resources.length - 1]\<close> (undefined when there is no argument);
  the arguments without the last one when \<^verbatim>\<open>typeof options === 'object'\<close> and
  \<^verbatim>\<open>options.dryRun !== undefined\<close> (reading a property of null raises);
  \<^verbatim>\<open>dryRun = options && options.dryRun\<close> and
  \<^verbatim>\<open>apply = options && options.apply !== false\<close>, both only ever tested for truthiness.
\<close>

definition options_arg :: "arg list \<Rightarrow> arg" where
  "options_arg resources = (if resources = [] then Val JUndefined else last resources)"

definition actualResources :: "arg list \<Rightarrow> error + arg list" where
  "actualResources resources =
     (let options = options_arg resources
      in if typeof_object options
         then (case arg_prop options ''dryRun'' of
                 Inl e \<Rightarrow> Inl e
               | Inr v \<Rightarrow> Inr (if v \<noteq> JUndefined then butlast resources else resources))
         else Inr resources)"

definition dryRun :: "arg list \<Rightarrow> bool" where
  "dryRun resources =
     (let options = options_arg resources
      in arg_truthy options \<and> truthy (arg_prop0 options ''dryRun''))"

definition apply_flag :: "arg list \<Rightarrow> bool" where
  "apply_flag resources =
     (let options = options_arg resources
      in arg_truthy options \<and> arg_prop0 options ''apply'' \<noteq> JBool False)"

text \<open>
  \<^verbatim>\<open>deploy(...resources)\<close>. The result is \<open>Inr b\<close> when the call returns the boolean \<open>b\<close>
  and \<open>Inl e\<close> when the error \<open>e\<close> leaves the call uncaught. The dry-run branch lies
  outside the \<^verbatim>\<open>try\<close> block, as does the first loop.
\<close>

definition dry_run_body :: "runtime \<Rightarrow> jsval list \<Rightarrow> world \<Rightarrow> (error + bool) \<times> world" where
  "dry_run_body rt allYAML w =
     (let w1 = log DryRunHeader w
      in case require_yaml rt of
           Inl e \<Rightarrow> (Inl e, w1)
         | Inr dump \<Rightarrow>
             (case print_docs dump allYAML w1 of
                (Some e, w2) \<Rightarrow> (Inl e, w2)
              | (None, w2) \<Rightarrow> (Inr True, w2)))"

definition deploy :: "runtime \<Rightarrow> arg list \<Rightarrow> world \<Rightarrow> (error + bool) \<times> world" where
  "deploy rt resources w =
     (case actualResources resources of
        Inl e \<Rightarrow> (Inl e, w)
      | Inr actual \<Rightarrow>
          (case visit actual [] (log (Deploying (length actual)) w) of
             (Inl e, w1) \<Rightarrow> (Inl e, w1)
           | (Inr allYAML, w1) \<Rightarrow>
               if dryRun resources then dry_run_body rt allYAML w1
               else if \<not> apply_flag resources then (Inr True, w1)
               else (case apply_body rt allYAML w1 of
                       (Inl e, w2) \<Rightarrow> (Inr False, handler e w2)
                     | (Inr b, w2) \<Rightarrow> (Inr b, w2))))"

text \<open>
  Building and serializing in one step, for statements about the document of a freshly
  built resource: the value found at a path of the document, or a field of the resource,
  or the error of the constructor.
\<close>

definition serialized_at ::
  "error + 'a \<Rightarrow> ('a \<Rightarrow> jsval) \<Rightarrow> string list \<Rightarrow> error + jsval" where
  "serialized_at built ser path =
     (case built of Inl e \<Rightarrow> Inl e | Inr x \<Rightarrow> Inr (at_path (ser x) path))"

definition field_of :: "error + 'a \<Rightarrow> ('a \<Rightarrow> 'b) \<Rightarrow> error + 'b" where
  "field_of built f = (case built of Inl e \<Rightarrow> Inl e | Inr x \<Rightarrow> Inr (f x))"

text \<open>\<^verbatim>\<open>serviceFor(new Deployment(name, options))\<close>: the exposure of a freshly built workload.\<close>

definition exposure_of :: "error + deployment \<Rightarrow> jsval \<Rightarrow> error + service" where
  "exposure_of built options =
     (case built of Inl e \<Rightarrow> Inl e | Inr d \<Rightarrow> serviceFor (RDeployment d) options)"

text \<open>
  Decoding a value of a serialized secret: the base64 text back to bytes, the bytes back
  to text.
\<close>

definition decode_value :: "jsval \<Rightarrow> string option" where
  "decode_value v =
     (case v of JStr e \<Rightarrow> map_option toString_utf8 (from_base64 e) | _ \<Rightarrow> None)"

text \<open>
  The output stream as the specification describes it: the documents in the order given,
  two neighbours separated by the multi-document separator.
\<close>

fun join_docs :: "string list \<Rightarrow> string" where
  "join_docs [] = []"
| "join_docs [s] = s"
| "join_docs (s # t # ss) = s @ separator @ join_docs (t # ss)"

text \<open>The line that announces a resource.\<close>

definition announce :: "res \<Rightarrow> event" where
  "announce r = Log (Announce (js_String (res_prop r ''kind'')) (js_String (res_prop r ''name'')))"


text \<open>
  Concrete surroundings for the examples below: a runtime where \<^verbatim>\<open>js-yaml\<close> is present (its
  \<^verbatim>\<open>dump\<close> stands in as the kind of the document) and the external tool fails, a
  configuration bundle, a secret bundle, and a world with no files and no history.
\<close>

definition example_runtime :: runtime where
  "example_runtime =
     \<lparr> require_yaml = Inr (\<lambda>v. Inr (js_String (at_path v [''kind'']))),
       tmpdir = ''/tmp'',
       now = 17,
       path_join = (\<lambda>a b. a @ ''/'' @ b),
       execSync = (\<lambda>cmd fs. Some (Error ''Command failed: kubectl apply'')) \<rparr>"

definition example_config :: configmap where
  "example_config =
     \<lparr> kind = ''ConfigMap'', name = JStr ''app-config'', namespace = JStr ''default'',
       labels = [(''app'', JStr ''app-config''), (''managed-by'', JStr ''mini-kuber'')],
       annotations = [],
       cm_data = JObj [(''log_level'', JStr ''info'')] \<rparr>"

definition example_secret :: secret where
  "example_secret =
     \<lparr> kind = ''Secret'', name = JStr ''app-secrets'', namespace = JStr ''default'',
       labels = [(''app'', JStr ''app-secrets''), (''managed-by'', JStr ''mini-kuber'')],
       annotations = [],
       sec_data = [(''api_key'', JStr ''super-secret-key'')],
       sec_type = JStr ''Opaque'' \<rparr>"

text \<open>
  A secret bundle whose data has the own key \<^verbatim>\<open>__proto__\<close>, as
  \<^verbatim>\<open>new Secret('s', JSON.parse('{"__proto__": "x", "a": "y"}'))\<close> builds it.
\<close>

definition proto_secret :: secret where
  "proto_secret =
     \<lparr> kind = ''Secret'', name = JStr ''s'', namespace = JStr ''default'',
       labels = [(''app'', JStr ''s''), (''managed-by'', JStr ''mini-kuber'')],
       annotations = [],
       sec_data = [(''__proto__'', JStr ''x''), (''a'', JStr ''y'')],
       sec_type = JStr ''Opaque'' \<rparr>"

definition empty_world :: world where
  "empty_world = \<lparr> files = Map.empty, trace = [] \<rparr>"

section \<open>Properties of the builders\<close>

lemma opts_of_obj [simp]: "opts_of (JObj kvs) = Inr (JObj kvs)"
  by (simp add: opts_of_def default_param_def nullish_def)

lemma opts_of_undefined [simp]: "opts_of JUndefined = Inr (JObj [])"
  by (simp add: opts_of_def default_param_def nullish_def)

lemma target_of_Res [simp]: "target_of (Res r) = Inr (res_prop r ''name'')"
  by (simp add: arg_prop_def)

lemma js_or_truthy [simp]: "truthy a \<Longrightarrow> js_or a b = a"
  by (simp add: js_or_def)

lemma js_or_falsy [simp]: "\<not> truthy a \<Longrightarrow> js_or a b = b"
  by (simp add: js_or_def)

lemma Deployment_Inr:
  "opts_of options0 = Inr options \<Longrightarrow>
   \<exists>d. Deployment nm options0 = Inr d
     \<and> name d = nm
     \<and> d_replicas d = js_or (js_prop options ''replicas'') (JNum 1)
     \<and> d_port d = js_prop options ''port''"
  by (simp add: Deployment_def Let_def Resource_def)

lemma Service_Inr:
  "opts_of options0 = Inr options \<Longrightarrow> target_of tgt = Inr t \<Longrightarrow>
   \<exists>s. Service nm tgt options0 = Inr s
     \<and> name s = nm
     \<and> s_target s = t
     \<and> s_port s = js_or (js_prop options ''port'') (JNum 80)
     \<and> s_targetPort s =
         js_or (js_prop options ''targetPort'') (js_or (arg_prop0 tgt ''port'') (s_port s))
     \<and> s_type s = js_or (js_prop options ''type'') (JStr ''ClusterIP'')"
  by (simp add: Service_def Let_def Resource_def)

lemma HorizontalPodAutoscaler_Inr:
  "opts_of options0 = Inr options \<Longrightarrow> target_of tgt = Inr t \<Longrightarrow>
   \<exists>h. HorizontalPodAutoscaler nm tgt options0 = Inr h"
  by (simp add: HorizontalPodAutoscaler_def Let_def)

lemma serviceFor_Inr:
  assumes "opts_of options0 = Inr options"
  shows "\<exists>s. serviceFor r options0 = Inr s"
proof -
  have "\<exists>s. Service n (Res r) (JObj kvs) = Inr s" for n kvs
    using Service_Inr [OF opts_of_obj target_of_Res] by blast
  then show ?thesis using assms by (simp add: serviceFor_def)
qed

lemma autoscaleFor_Inr:
  assumes "opts_of options0 = Inr options"
  shows "\<exists>h. autoscaleFor r options0 = Inr h"
proof -
  have "\<exists>h. HorizontalPodAutoscaler n (Res r) (JObj kvs) = Inr h" for n kvs
    using HorizontalPodAutoscaler_Inr [OF opts_of_obj target_of_Res] by blast
  then show ?thesis using assms by (simp add: autoscaleFor_def)
qed

lemma Deployment_toYAML_replicas:
  "at_path (Deployment_toYAML d) [''spec'', ''replicas''] = d_replicas d"
  by (simp add: Deployment_toYAML_def Let_def)

lemma Deployment_serialized_replicas:
  assumes "opts_of options0 = Inr options"
  shows "serialized_at (Deployment nm options0) Deployment_toYAML [''spec'', ''replicas'']
           = Inr (js_or (js_prop options ''replicas'') (JNum 1))"
proof -
  obtain d where "Deployment nm options0 = Inr d"
      and "d_replicas d = js_or (js_prop options ''replicas'') (JNum 1)"
    using Deployment_Inr [OF assms] by blast
  then show ?thesis
    using Deployment_toYAML_replicas [of d] by (simp add: serialized_at_def)
qed

text \<open>
  The workload that \<^verbatim>\<open>webApp\<close> builds comes first in its result, and its replica count
  went through both defaults: \<^verbatim>\<open>options.replicas || 3\<close>, then \<^verbatim>\<open>options.replicas || 1\<close>.
\<close>

lemma webApp_Inr:
  assumes "opts_of options0 = Inr options"
  shows "\<exists>app rest. webApp js_times nm img options0 = Inr (RDeployment app # rest)
     \<and> d_replicas app = js_or (js_or (js_prop options ''replicas'') (JNum 3)) (JNum 1)"
proof -
  let ?replicas = "js_or (js_prop options ''replicas'') (JNum 3)"
  let ?o = "JObj [(''image'', img), (''replicas'', ?replicas),
                  (''port'', js_or (js_prop options ''port'') (JNum 80)),
                  (''env'', js_prop options ''env''),
                  (''namespace'', js_prop options ''namespace'')]"
  obtain app where app: "Deployment nm ?o = Inr app"
      and r: "d_replicas app = js_or (js_prop ?o ''replicas'') (JNum 1)"
    using Deployment_Inr [OF opts_of_obj] by blast
  obtain svc where svc:
      "serviceFor (RDeployment app) (JObj [(''type'', JStr ''LoadBalancer'')]) = Inr svc"
    using serviceFor_Inr [OF opts_of_obj] by blast
  obtain h where h: "autoscaleFor (RDeployment app)
       (JObj [(''minReplicas'', ?replicas), (''maxReplicas'', js_times ?replicas (JNum 3))])
         = Inr h"
    using autoscaleFor_Inr [OF opts_of_obj] by blast
  from r have r': "d_replicas app = js_or ?replicas (JNum 1)" by simp
  show ?thesis
    using assms app svc h r' by (simp add: webApp_def Let_def)
qed

lemma webApp_default_replicas:
  assumes "opts_of options0 = Inr options" and "js_prop options ''replicas'' = JUndefined"
  shows "\<exists>app rest. webApp js_times nm img options0 = Inr (RDeployment app # rest)
     \<and> at_path (toYAML (RDeployment app)) [''spec'', ''replicas''] = JNum 3"
proof -
  obtain app rest where "webApp js_times nm img options0 = Inr (RDeployment app # rest)"
      and "d_replicas app = js_or (js_or (js_prop options ''replicas'') (JNum 3)) (JNum 1)"
    using webApp_Inr [OF assms(1)] by blast
  with assms(2) Deployment_toYAML_replicas [of app] show ?thesis by simp
qed

text \<open>
  C1, as the program has it. A workload built with a replica count that is not zero
  (more generally, with any truthy value \<open>v\<close> as its \<^verbatim>\<open>replicas\<close> option) serializes to a
  document whose \<^verbatim>\<open>spec.replicas\<close> is that value. When the option is omitted, or
  given as 0, \<^verbatim>\<open>spec.replicas\<close> is the default 1. The workload that \<^verbatim>\<open>webApp\<close> builds when no
  replica count is given has \<^verbatim>\<open>spec.replicas\<close> equal to 3.
\<close>

theorem replicas_round_trip:
  "(map_of kvs ''replicas'' = Some v \<and> truthy v \<longrightarrow>
      serialized_at (Deployment nm (JObj kvs)) Deployment_toYAML [''spec'', ''replicas'']
        = Inr v)
   \<and> (map_of kvs ''replicas'' = None \<or> map_of kvs ''replicas'' = Some (JNum 0) \<longrightarrow>
      serialized_at (Deployment nm (JObj kvs)) Deployment_toYAML [''spec'', ''replicas'']
        = Inr (JNum 1))
   \<and> serialized_at (Deployment nm JUndefined) Deployment_toYAML [''spec'', ''replicas'']
        = Inr (JNum 1)
   \<and> (map_of kvs ''replicas'' = None \<longrightarrow>
        (\<exists>app rest. webApp js_times nm img (JObj kvs) = Inr (RDeployment app # rest)
           \<and> at_path (toYAML (RDeployment app)) [''spec'', ''replicas''] = JNum 3))
   \<and> (\<exists>app rest. webApp js_times nm img JUndefined = Inr (RDeployment app # rest)
           \<and> at_path (toYAML (RDeployment app)) [''spec'', ''replicas''] = JNum 3)"
proof -
  have given: "map_of kvs ''replicas'' = Some v \<and> truthy v \<longrightarrow>
      serialized_at (Deployment nm (JObj kvs)) Deployment_toYAML [''spec'', ''replicas'']
        = Inr v"
    by (simp add: Deployment_serialized_replicas [OF opts_of_obj])
  have omitted: "map_of kvs ''replicas'' = None \<or> map_of kvs ''replicas'' = Some (JNum 0) \<longrightarrow>
      serialized_at (Deployment nm (JObj kvs)) Deployment_toYAML [''spec'', ''replicas'']
        = Inr (JNum 1)"
    by (auto simp: Deployment_serialized_replicas [OF opts_of_obj])
  have none: "serialized_at (Deployment nm JUndefined) Deployment_toYAML [''spec'', ''replicas'']
        = Inr (JNum 1)"
    by (simp add: Deployment_serialized_replicas [OF opts_of_undefined])
  have web: "map_of kvs ''replicas'' = None \<longrightarrow>
        (\<exists>app rest. webApp js_times nm img (JObj kvs) = Inr (RDeployment app # rest)
           \<and> at_path (toYAML (RDeployment app)) [''spec'', ''replicas''] = JNum 3)"
    using webApp_default_replicas [OF opts_of_obj, of kvs js_times nm img] by simp
  have web0: "\<exists>app rest. webApp js_times nm img JUndefined = Inr (RDeployment app # rest)
           \<and> at_path (toYAML (RDeployment app)) [''spec'', ''replicas''] = JNum 3"
    using webApp_default_replicas [OF opts_of_undefined, of js_times nm img] by simp
  from given omitted none web web0 show ?thesis by blast
qed

theorem replicas_round_trip_witness:
  "map_of [(''replicas'', JNum 5)] ''replicas'' = Some (JNum 5) \<and> truthy (JNum 5)
   \<and> serialized_at (Deployment (JStr ''api'') (JObj [(''replicas'', JNum 5)]))
        Deployment_toYAML [''spec'', ''replicas''] = Inr (JNum 5)
   \<and> map_of ([] :: obj) ''replicas'' = None
   \<and> serialized_at (Deployment (JStr ''api'') (JObj [])) Deployment_toYAML
        [''spec'', ''replicas''] = Inr (JNum 1)"
  using replicas_round_trip [of "[(''replicas'', JNum 5)]" "JNum 5" "JStr ''api''"]
    replicas_round_trip [of "[]" "JNum 5" "JStr ''api''"]
  by simp

text \<open>
  C1 as stated fails at the replica count 0: \<^verbatim>\<open>options.replicas || 1\<close> takes 0 for an
  omitted option, and the document says 1.
\<close>

theorem replicas_zero_counterexample:
  "serialized_at (Deployment (JStr ''api'') (JObj [(''replicas'', JNum 0)]))
      Deployment_toYAML [''spec'', ''replicas''] = Inr (JNum 1)
   \<and> JNum 1 \<noteq> JNum 0"
  by (simp add: Deployment_serialized_replicas [OF opts_of_obj])


subsection \<open>The exposure of a workload\<close>

lemma res_prop_Deployment [simp]:
  "res_prop (RDeployment d) ''name'' = name d"
  "res_prop (RDeployment d) ''port'' = d_port d"
  "res_prop (RDeployment d) ''namespace'' = namespace d"
  "res_prop (RDeployment d) ''kind'' = JStr (kind d)"
  by (simp_all add: res_prop_def base_fields_def)

lemma res_prop_StatefulSet [simp]:
  "res_prop (RStatefulSet t) ''name'' = name t"
  "res_prop (RStatefulSet t) ''port'' = ss_port t"
  "res_prop (RStatefulSet t) ''namespace'' = namespace t"
  "res_prop (RStatefulSet t) ''kind'' = JStr (kind t)"
  by (simp_all add: res_prop_def base_fields_def)

lemma spread_into_Nil [simp]: "spread_into base [] = base"
  by (simp add: spread_into_def)

lemma Service_toYAML_ports:
  "at_path (Service_toYAML s) [''spec'', ''ports'']
     = JArr [JObj [(''port'', s_port s), (''targetPort'', s_targetPort s),
                   (''protocol'', JStr ''TCP'')]]"
  by (simp add: Service_toYAML_def)

lemma serviceFor_empty_options: "serviceFor r (JObj []) = serviceFor r JUndefined"
  by (simp add: serviceFor_def)

text \<open>
  With default options \<^verbatim>\<open>serviceFor\<close> passes \<^verbatim>\<open>port: deployment.port || 80\<close> on, and the
  constructor computes the target port as \<^verbatim>\<open>target.port || this.port\<close>.
\<close>

lemma serviceFor_default:
  "\<exists>s. serviceFor r JUndefined = Inr s
     \<and> name s = JStr (js_String (res_prop r ''name'') @ ''-service'')
     \<and> s_target s = res_prop r ''name''
     \<and> s_type s = JStr ''ClusterIP''
     \<and> s_port s = js_or (res_prop r ''port'') (JNum 80)
     \<and> s_targetPort s = js_or (res_prop r ''port'') (JNum 80)"
proof -
  let ?o = "JObj [(''port'', js_or (js_prop (JObj []) ''port'')
                              (js_or (res_prop r ''port'') (JNum 80))),
                  (''type'', js_or (js_prop (JObj []) ''type'') (JStr ''ClusterIP'')),
                  (''namespace'', res_prop r ''namespace'')]"
  let ?n = "JStr (js_String (res_prop r ''name'') @ ''-service'')"
  have sf: "serviceFor r JUndefined = Service ?n (Res r) ?o"
    by (simp add: serviceFor_def)
  obtain s where s: "Service ?n (Res r) ?o = Inr s" "name s = ?n"
     "s_target s = res_prop r ''name''"
     "s_port s = js_or (js_prop ?o ''port'') (JNum 80)"
     "s_targetPort s =
        js_or (js_prop ?o ''targetPort'') (js_or (arg_prop0 (Res r) ''port'') (s_port s))"
     "s_type s = js_or (js_prop ?o ''type'') (JStr ''ClusterIP'')"
    using Service_Inr [OF opts_of_obj target_of_Res] by blast
  have p: "s_port s = js_or (res_prop r ''port'') (JNum 80)"
    using s(4) by (simp add: js_or_def)
  have tp: "s_targetPort s = js_or (res_prop r ''port'') (JNum 80)"
    using s(5) p by (simp add: js_or_def)
  have ty: "s_type s = JStr ''ClusterIP''"
    using s(6) by simp
  from sf s(1,2,3) p tp ty show ?thesis by simp
qed

lemma exposure_of_Deployment:
  "\<exists>d s. Deployment nm (JObj kvs) = Inr d
     \<and> d_port d = js_prop (JObj kvs) ''port''
     \<and> exposure_of (Deployment nm (JObj kvs)) JUndefined = Inr s
     \<and> name s = JStr (js_String nm @ ''-service'')
     \<and> s_target s = nm
     \<and> s_type s = JStr ''ClusterIP''
     \<and> s_port s = js_or (js_prop (JObj kvs) ''port'') (JNum 80)
     \<and> s_targetPort s = js_or (js_prop (JObj kvs) ''port'') (JNum 80)"
proof -
  obtain d where d: "Deployment nm (JObj kvs) = Inr d" "name d = nm"
      "d_port d = js_prop (JObj kvs) ''port''"
    using Deployment_Inr [OF opts_of_obj] by blast
  from serviceFor_default [of "RDeployment d"] d show ?thesis
    by (auto simp: exposure_of_def)
qed

text \<open>
  C3, as the program has it. For every workload whose port is truthy (a port number
  other than 0), the exposure that \<^verbatim>\<open>serviceFor\<close> derives with default options is named
  \<^verbatim>\<open><workload-name>-service\<close>, targets the workload's name, has type \<^verbatim>\<open>ClusterIP\<close>, and its
  target port (and its port) is the workload's port, in the record and in the document.
  In particular the workload \<^verbatim>\<open>api\<close> with image \<^verbatim>\<open>myapi:latest\<close>, 3 replicas and port 8080
  yields the exposure \<^verbatim>\<open>api-service\<close> with target \<^verbatim>\<open>api\<close>, port 8080 and type
  \<^verbatim>\<open>ClusterIP\<close>.
\<close>

theorem exposure_for_workload:
  "(truthy (res_prop r ''port'') \<longrightarrow>
      (\<exists>s. serviceFor r JUndefined = Inr s \<and> serviceFor r (JObj []) = Inr s
         \<and> name s = JStr (js_String (res_prop r ''name'') @ ''-service'')
         \<and> s_target s = res_prop r ''name''
         \<and> s_type s = JStr ''ClusterIP''
         \<and> s_targetPort s = res_prop r ''port''
         \<and> at_path (Service_toYAML s) [''spec'', ''ports'']
             = JArr [JObj [(''port'', res_prop r ''port''),
                           (''targetPort'', res_prop r ''port''),
                           (''protocol'', JStr ''TCP'')]]))
   \<and> (\<exists>s. exposure_of
             (Deployment (JStr ''api'')
                (JObj [(''image'', JStr ''myapi:latest''), (''replicas'', JNum 3),
                       (''port'', JNum 8080)]))
             JUndefined = Inr s
         \<and> name s = JStr ''api-service''
         \<and> s_target s = JStr ''api''
         \<and> s_port s = JNum 8080
         \<and> s_targetPort s = JNum 8080
         \<and> s_type s = JStr ''ClusterIP'')"
proof -
  have general: "truthy (res_prop r ''port'') \<longrightarrow>
      (\<exists>s. serviceFor r JUndefined = Inr s \<and> serviceFor r (JObj []) = Inr s
         \<and> name s = JStr (js_String (res_prop r ''name'') @ ''-service'')
         \<and> s_target s = res_prop r ''name''
         \<and> s_type s = JStr ''ClusterIP''
         \<and> s_targetPort s = res_prop r ''port''
         \<and> at_path (Service_toYAML s) [''spec'', ''ports'']
             = JArr [JObj [(''port'', res_prop r ''port''),
                           (''targetPort'', res_prop r ''port''),
                           (''protocol'', JStr ''TCP'')]])"
  proof
    assume t: "truthy (res_prop r ''port'')"
    obtain s where s: "serviceFor r JUndefined = Inr s"
        "name s = JStr (js_String (res_prop r ''name'') @ ''-service'')"
        "s_target s = res_prop r ''name''" "s_type s = JStr ''ClusterIP''"
        "s_port s = js_or (res_prop r ''port'') (JNum 80)"
        "s_targetPort s = js_or (res_prop r ''port'') (JNum 80)"
      using serviceFor_default [of r] by blast
    from t s(5,6) have "s_port s = res_prop r ''port''" "s_targetPort s = res_prop r ''port''"
      by simp_all
    with s(1-4) Service_toYAML_ports [of s] serviceFor_empty_options [of r]
    show "\<exists>s. serviceFor r JUndefined = Inr s \<and> serviceFor r (JObj []) = Inr s
         \<and> name s = JStr (js_String (res_prop r ''name'') @ ''-service'')
         \<and> s_target s = res_prop r ''name''
         \<and> s_type s = JStr ''ClusterIP''
         \<and> s_targetPort s = res_prop r ''port''
         \<and> at_path (Service_toYAML s) [''spec'', ''ports'']
             = JArr [JObj [(''port'', res_prop r ''port''),
                           (''targetPort'', res_prop r ''port''),
                           (''protocol'', JStr ''TCP'')]]"
      by auto
  qed
  have scenario: "\<exists>s. exposure_of
             (Deployment (JStr ''api'')
                (JObj [(''image'', JStr ''myapi:latest''), (''replicas'', JNum 3),
                       (''port'', JNum 8080)]))
             JUndefined = Inr s
         \<and> name s = JStr ''api-service''
         \<and> s_target s = JStr ''api''
         \<and> s_port s = JNum 8080
         \<and> s_targetPort s = JNum 8080
         \<and> s_type s = JStr ''ClusterIP''"
    using exposure_of_Deployment [of "JStr ''api''"
        "[(''image'', JStr ''myapi:latest''), (''replicas'', JNum 3), (''port'', JNum 8080)]"]
    by auto
  from general scenario show ?thesis by blast
qed

theorem exposure_for_workload_witness:
  "truthy (res_prop (RStatefulSet
      \<lparr> kind = ''StatefulSet'', name = JStr ''db'', namespace = JStr ''default'',
        labels = [], annotations = [], ss_image = JStr ''postgres:13'',
        ss_replicas = JNum 1, ss_port = JNum 5432, ss_storage = JStr ''10Gi'',
        ss_storageClass = JStr ''standard'', ss_env = JObj [] \<rparr>) ''port'')
   \<and> field_of (serviceFor (RStatefulSet
      \<lparr> kind = ''StatefulSet'', name = JStr ''db'', namespace = JStr ''default'',
        labels = [], annotations = [], ss_image = JStr ''postgres:13'',
        ss_replicas = JNum 1, ss_port = JNum 5432, ss_storage = JStr ''10Gi'',
        ss_storageClass = JStr ''standard'', ss_env = JObj [] \<rparr>) JUndefined) s_targetPort
       = Inr (JNum 5432)"
  using exposure_for_workload [of "RStatefulSet
      \<lparr> kind = ''StatefulSet'', name = JStr ''db'', namespace = JStr ''default'',
        labels = [], annotations = [], ss_image = JStr ''postgres:13'',
        ss_replicas = JNum 1, ss_port = JNum 5432, ss_storage = JStr ''10Gi'',
        ss_storageClass = JStr ''standard'', ss_env = JObj [] \<rparr>"]
  by (auto simp: field_of_def)

text \<open>
  C3 as stated fails for a workload that gives its port as 0: the workload keeps the
  port 0, \<^verbatim>\<open>deployment.port || 80\<close> and \<^verbatim>\<open>target.port || this.port\<close> both fall through,
  and the target port of the exposure is its own default 80.
\<close>

theorem exposure_port_zero_counterexample:
  "field_of (Deployment (JStr ''api'') (JObj [(''port'', JNum 0)])) d_port = Inr (JNum 0)
   \<and> field_of (exposure_of (Deployment (JStr ''api'') (JObj [(''port'', JNum 0)])) JUndefined)
        s_targetPort = Inr (JNum 80)
   \<and> JNum 80 \<noteq> JNum 0"
  using exposure_of_Deployment [of "JStr ''api''" "[(''port'', JNum 0)]"]
  by (auto simp: field_of_def)

subsection \<open>An exposure that names its target\<close>

text \<open>
  C10. A Service built with a string as its target and without a \<^verbatim>\<open>targetPort\<close> option has
  its own port as target port, which is 80 when the \<^verbatim>\<open>port\<close> option is omitted too: a
  string has no \<^verbatim>\<open>port\<close> property, so nothing of the named workload enters the result.
\<close>

theorem service_by_name_target_port:
  assumes "opts_of options0 = Inr options"
      and "js_prop options ''targetPort'' = JUndefined"
  shows "\<exists>s. Service nm (Val (JStr t)) options0 = Inr s
     \<and> s_target s = JStr t
     \<and> s_targetPort s = s_port s
     \<and> s_port s = js_or (js_prop options ''port'') (JNum 80)
     \<and> (js_prop options ''port'' = JUndefined \<longrightarrow> s_targetPort s = JNum 80)"
proof -
  have t: "target_of (Val (JStr t)) = Inr (JStr t)" by simp
  obtain s where s: "Service nm (Val (JStr t)) options0 = Inr s" "s_target s = JStr t"
      "s_port s = js_or (js_prop options ''port'') (JNum 80)"
      "s_targetPort s = js_or (js_prop options ''targetPort'')
                          (js_or (arg_prop0 (Val (JStr t)) ''port'') (s_port s))"
    using Service_Inr [OF assms(1) t] by blast
  from s(4) assms(2) have "s_targetPort s = s_port s" by simp
  with s(1,2,3) show ?thesis by auto
qed

theorem service_by_name_target_port_witness:
  "opts_of (JObj [(''port'', JNum 5432)]) = Inr (JObj [(''port'', JNum 5432)])
   \<and> js_prop (JObj [(''port'', JNum 5432)]) ''targetPort'' = JUndefined
   \<and> field_of (Service (JStr ''db-service'') (Val (JStr ''db'')) (JObj [(''port'', JNum 5432)]))
        s_targetPort = Inr (JNum 5432)
   \<and> field_of (Service (JStr ''db-service'') (Val (JStr ''db'')) JUndefined) s_targetPort
        = Inr (JNum 80)"
proof -
  have a: "opts_of (JObj [(''port'', JNum 5432)]) = Inr (JObj [(''port'', JNum 5432)])"
    by simp
  have b: "js_prop (JObj [(''port'', JNum 5432)]) ''targetPort'' = JUndefined"
    by simp
  have c: "js_prop (JObj []) ''targetPort'' = JUndefined"
    by simp
  show ?thesis
    using service_by_name_target_port [OF a b, of "JStr ''db-service''" "''db''"]
      service_by_name_target_port [OF opts_of_undefined c, of "JStr ''db-service''" "''db''"]
    by (auto simp: field_of_def)
qed


subsection \<open>The selector of a workload and the labels of its template\<close>

lemma Deployment_labels:
  "opts_of options0 = Inr options \<Longrightarrow>
   \<exists>d. Deployment nm options0 = Inr d \<and> name d = nm
     \<and> labels d =
         (if js_prop options ''autoHeal'' \<noteq> JBool False
          then [(''app'', nm), (''managed-by'', JStr ''mini-kuber''),
                (''auto-heal'', JStr ''true'')]
          else [(''app'', nm), (''managed-by'', JStr ''mini-kuber'')])"
  by (simp add: Deployment_def Let_def Resource_def)

lemma Deployment_toYAML_selector:
  "at_path (Deployment_toYAML d) [''spec'', ''selector'', ''matchLabels'']
     = JObj [(''app'', name d)]"
  by (simp add: Deployment_toYAML_def Let_def)

lemma Deployment_toYAML_template_labels:
  "at_path (Deployment_toYAML d) [''spec'', ''template'', ''metadata'', ''labels'']
     = JObj (spread_into [(''app'', name d)] (labels d))"
  by (simp add: Deployment_toYAML_def Let_def)

text \<open>
  C9. For every name and all options of the constructor, the document of the Deployment
  has \<^verbatim>\<open>spec.selector.matchLabels\<close> exactly \<^verbatim>\<open>{ app: name }\<close>, the labels of its pod
  template contain \<^verbatim>\<open>app: name\<close>, and every entry of the selector is an entry of the
  template labels.
\<close>

theorem selector_matches_template:
  assumes "opts_of options0 = Inr options"
  shows "\<exists>d ml tl. Deployment nm options0 = Inr d
     \<and> at_path (Deployment_toYAML d) [''spec'', ''selector'', ''matchLabels''] = JObj ml
     \<and> ml = [(''app'', nm)]
     \<and> at_path (Deployment_toYAML d) [''spec'', ''template'', ''metadata'', ''labels'']
         = JObj tl
     \<and> map_of tl ''app'' = Some nm
     \<and> map_of ml \<subseteq>\<^sub>m map_of tl"
proof -
  obtain d where d: "Deployment nm options0 = Inr d" "name d = nm"
     and l: "labels d =
         (if js_prop options ''autoHeal'' \<noteq> JBool False
          then [(''app'', nm), (''managed-by'', JStr ''mini-kuber''),
                (''auto-heal'', JStr ''true'')]
          else [(''app'', nm), (''managed-by'', JStr ''mini-kuber'')])"
    using Deployment_labels [OF assms] by blast
  let ?tl = "spread_into [(''app'', nm)] (labels d)"
  have tl: "?tl = labels d"
    by (simp add: l spread_into_def)
  have "map_of ?tl ''app'' = Some nm" "map_of [(''app'', nm)] \<subseteq>\<^sub>m map_of ?tl"
    unfolding tl by (simp_all add: l map_le_def)
  with d show ?thesis
    using Deployment_toYAML_selector [of d] Deployment_toYAML_template_labels [of d]
    by auto
qed

theorem selector_matches_template_witness:
  "opts_of (JObj [(''autoHeal'', JBool False)]) = Inr (JObj [(''autoHeal'', JBool False)])
   \<and> serialized_at (Deployment (JStr ''api'') (JObj [(''autoHeal'', JBool False)]))
        Deployment_toYAML [''spec'', ''selector'', ''matchLabels'']
       = Inr (JObj [(''app'', JStr ''api'')])"
proof -
  have a: "opts_of (JObj [(''autoHeal'', JBool False)])
             = Inr (JObj [(''autoHeal'', JBool False)])"
    by simp
  show ?thesis
    using selector_matches_template [OF a, of "JStr ''api''"]
    by (auto simp: serialized_at_def)
qed

subsection \<open>Defaults of the builders\<close>

lemma js_or_undefined [simp]: "js_or JUndefined d = d"
  by (simp add: js_or_def)

lemma Deployment_defaults:
  assumes "opts_of options0 = Inr options"
  shows "\<exists>d. Deployment nm options0 = Inr d
     \<and> kind d = ''Deployment'' \<and> name d = nm
     \<and> (js_prop options ''namespace'' = JUndefined \<longrightarrow> namespace d = JStr ''default'')
     \<and> (js_prop options ''image'' = JUndefined \<longrightarrow> d_image d = JStr ''nginx:latest'')
     \<and> (js_prop options ''replicas'' = JUndefined \<longrightarrow> d_replicas d = JNum 1)
     \<and> (js_prop options ''env'' = JUndefined \<longrightarrow> d_env d = JObj [])
     \<and> (js_prop options ''cpuRequest'' = JUndefined \<longrightarrow> d_cpuRequest d = JStr ''100m'')
     \<and> (js_prop options ''memoryRequest'' = JUndefined \<longrightarrow>
           d_memoryRequest d = JStr ''128Mi'')
     \<and> (js_prop options ''cpuLimit'' = JUndefined \<longrightarrow> d_cpuLimit d = JStr ''500m'')
     \<and> (js_prop options ''memoryLimit'' = JUndefined \<longrightarrow> d_memoryLimit d = JStr ''512Mi'')
     \<and> (js_prop options ''port'' = JUndefined \<longrightarrow> d_port d = JUndefined)"
  using assms
  by (simp add: Deployment_def Let_def Resource_def opt_namespace_def default_param_def)

lemma StatefulSet_defaults:
  assumes "opts_of options0 = Inr options"
  shows "\<exists>t. StatefulSet nm options0 = Inr t
     \<and> kind t = ''StatefulSet'' \<and> name t = nm
     \<and> (js_prop options ''namespace'' = JUndefined \<longrightarrow> namespace t = JStr ''default'')
     \<and> (js_prop options ''replicas'' = JUndefined \<longrightarrow> ss_replicas t = JNum 1)
     \<and> (js_prop options ''storage'' = JUndefined \<longrightarrow> ss_storage t = JStr ''10Gi'')
     \<and> (js_prop options ''storageClass'' = JUndefined \<longrightarrow>
           ss_storageClass t = JStr ''standard'')
     \<and> (js_prop options ''env'' = JUndefined \<longrightarrow> ss_env t = JObj [])
     \<and> (js_prop options ''port'' = JUndefined \<longrightarrow> ss_port t = JUndefined)"
  using assms
  by (simp add: StatefulSet_def Let_def Resource_def opt_namespace_def default_param_def)

lemma target_of_Inr: "\<not> arg_nullish tgt \<Longrightarrow> \<exists>t. target_of tgt = Inr t"
  by (cases tgt rule: target_of.cases) (simp_all add: arg_prop_def)

lemma Service_defaults:
  assumes "opts_of options0 = Inr options" and "\<not> arg_nullish tgt"
  shows "\<exists>s. Service nm tgt options0 = Inr s
     \<and> kind s = ''Service'' \<and> name s = nm
     \<and> (js_prop options ''namespace'' = JUndefined \<longrightarrow> namespace s = JStr ''default'')
     \<and> (js_prop options ''port'' = JUndefined \<longrightarrow> s_port s = JNum 80)
     \<and> (js_prop options ''targetPort'' = JUndefined \<longrightarrow>
           s_targetPort s = js_or (arg_prop0 tgt ''port'') (s_port s))
     \<and> (js_prop options ''type'' = JUndefined \<longrightarrow> s_type s = JStr ''ClusterIP'')"
proof -
  obtain t where "target_of tgt = Inr t" using target_of_Inr [OF assms(2)] by blast
  with assms(1) show ?thesis
    by (simp add: Service_def Let_def Resource_def opt_namespace_def default_param_def)
qed

lemma ConfigMap_defaults:
  assumes "opts_of options0 = Inr options"
  shows "\<exists>c. ConfigMap nm dat options0 = Inr c
     \<and> kind c = ''ConfigMap'' \<and> name c = nm \<and> cm_data c = dat
     \<and> (js_prop options ''namespace'' = JUndefined \<longrightarrow> namespace c = JStr ''default'')"
  using assms
  by (simp add: ConfigMap_def Let_def Resource_def opt_namespace_def default_param_def)

lemma Secret_defaults:
  assumes "opts_of options0 = Inr options"
  shows "\<exists>c. Secret nm dat options0 = Inr c
     \<and> kind c = ''Secret'' \<and> name c = nm \<and> sec_data c = dat
     \<and> (js_prop options ''namespace'' = JUndefined \<longrightarrow> namespace c = JStr ''default'')
     \<and> (js_prop options ''type'' = JUndefined \<longrightarrow> sec_type c = JStr ''Opaque'')"
  using assms
  by (simp add: Secret_def Let_def Resource_def opt_namespace_def default_param_def)

lemma HorizontalPodAutoscaler_defaults:
  assumes "opts_of options0 = Inr options" and "\<not> arg_nullish tgt"
  shows "\<exists>h. HorizontalPodAutoscaler nm tgt options0 = Inr h
     \<and> kind h = ''HorizontalPodAutoscaler'' \<and> name h = nm
     \<and> (js_prop options ''namespace'' = JUndefined \<longrightarrow> namespace h = JStr ''default'')
     \<and> (js_prop options ''minReplicas'' = JUndefined \<longrightarrow> h_minReplicas h = JNum 1)
     \<and> (js_prop options ''maxReplicas'' = JUndefined \<longrightarrow> h_maxReplicas h = JNum 10)
     \<and> (js_prop options ''cpuPercent'' = JUndefined \<longrightarrow> h_cpuPercent h = JNum 80)"
proof -
  obtain t where "target_of tgt = Inr t" using target_of_Inr [OF assms(2)] by blast
  with assms(1) show ?thesis
    by (simp add: HorizontalPodAutoscaler_def Let_def Resource_def opt_namespace_def
        default_param_def)
qed

text \<open>
  C7, as the program has it. For each of the six builders, for every options argument
  that is omitted or is any value but null, and (for Service and HorizontalPodAutoscaler)
  every target that is a string or an object, construction succeeds, and a field whose
  option is omitted takes its default: namespace \<^verbatim>\<open>default\<close>; for a Deployment image
  \<^verbatim>\<open>nginx:latest\<close>, 1 replica, empty environment, requests \<^verbatim>\<open>100m\<close> and \<^verbatim>\<open>128Mi\<close>, limits
  \<^verbatim>\<open>500m\<close> and \<^verbatim>\<open>512Mi\<close>; for a StatefulSet 1 replica, storage \<^verbatim>\<open>10Gi\<close>, storage class
  \<^verbatim>\<open>standard\<close>, empty environment; for a Service port 80, type \<^verbatim>\<open>ClusterIP\<close> and the target
  port taken from the target or else from its own port; for a Secret type \<^verbatim>\<open>Opaque\<close>;
  for an autoscaler 1 to 10 replicas at 80 percent. The port of a Deployment and of a
  StatefulSet has no default: it stays undefined when omitted.
\<close>

theorem builders_never_fail_and_default:
  assumes "opts_of options0 = Inr options" and "\<not> arg_nullish tgt"
  shows
   "(\<exists>d. Deployment nm options0 = Inr d
     \<and> kind d = ''Deployment'' \<and> name d = nm
     \<and> (js_prop options ''namespace'' = JUndefined \<longrightarrow> namespace d = JStr ''default'')
     \<and> (js_prop options ''image'' = JUndefined \<longrightarrow> d_image d = JStr ''nginx:latest'')
     \<and> (js_prop options ''replicas'' = JUndefined \<longrightarrow> d_replicas d = JNum 1)
     \<and> (js_prop options ''env'' = JUndefined \<longrightarrow> d_env d = JObj [])
     \<and> (js_prop options ''cpuRequest'' = JUndefined \<longrightarrow> d_cpuRequest d = JStr ''100m'')
     \<and> (js_prop options ''memoryRequest'' = JUndefined \<longrightarrow>
           d_memoryRequest d = JStr ''128Mi'')
     \<and> (js_prop options ''cpuLimit'' = JUndefined \<longrightarrow> d_cpuLimit d = JStr ''500m'')
     \<and> (js_prop options ''memoryLimit'' = JUndefined \<longrightarrow> d_memoryLimit d = JStr ''512Mi'')
     \<and> (js_prop options ''port'' = JUndefined \<longrightarrow> d_port d = JUndefined))
  \<and> (\<exists>t. StatefulSet nm options0 = Inr t
     \<and> kind t = ''StatefulSet'' \<and> name t = nm
     \<and> (js_prop options ''namespace'' = JUndefined \<longrightarrow> namespace t = JStr ''default'')
     \<and> (js_prop options ''replicas'' = JUndefined \<longrightarrow> ss_replicas t = JNum 1)
     \<and> (js_prop options ''storage'' = JUndefined \<longrightarrow> ss_storage t = JStr ''10Gi'')
     \<and> (js_prop options ''storageClass'' = JUndefined \<longrightarrow>
           ss_storageClass t = JStr ''standard'')
     \<and> (js_prop options ''env'' = JUndefined \<longrightarrow> ss_env t = JObj [])
     \<and> (js_prop options ''port'' = JUndefined \<longrightarrow> ss_port t = JUndefined))
  \<and> (\<exists>s. Service nm tgt options0 = Inr s
     \<and> kind s = ''Service'' \<and> name s = nm
     \<and> (js_prop options ''namespace'' = JUndefined \<longrightarrow> namespace s = JStr ''default'')
     \<and> (js_prop options ''port'' = JUndefined \<longrightarrow> s_port s = JNum 80)
     \<and> (js_prop options ''targetPort'' = JUndefined \<longrightarrow>
           s_targetPort s = js_or (arg_prop0 tgt ''port'') (s_port s))
     \<and> (js_prop options ''type'' = JUndefined \<longrightarrow> s_type s = JStr ''ClusterIP''))
  \<and> (\<exists>c. ConfigMap nm cdat options0 = Inr c
     \<and> kind c = ''ConfigMap'' \<and> name c = nm \<and> cm_data c = cdat
     \<and> (js_prop options ''namespace'' = JUndefined \<longrightarrow> namespace c = JStr ''default''))
  \<and> (\<exists>c. Secret nm sdat options0 = Inr c
     \<and> kind c = ''Secret'' \<and> name c = nm \<and> sec_data c = sdat
     \<and> (js_prop options ''namespace'' = JUndefined \<longrightarrow> namespace c = JStr ''default'')
     \<and> (js_prop options ''type'' = JUndefined \<longrightarrow> sec_type c = JStr ''Opaque''))
  \<and> (\<exists>h. HorizontalPodAutoscaler nm tgt options0 = Inr h
     \<and> kind h = ''HorizontalPodAutoscaler'' \<and> name h = nm
     \<and> (js_prop options ''namespace'' = JUndefined \<longrightarrow> namespace h = JStr ''default'')
     \<and> (js_prop options ''minReplicas'' = JUndefined \<longrightarrow> h_minReplicas h = JNum 1)
     \<and> (js_prop options ''maxReplicas'' = JUndefined \<longrightarrow> h_maxReplicas h = JNum 10)
     \<and> (js_prop options ''cpuPercent'' = JUndefined \<longrightarrow> h_cpuPercent h = JNum 80))"
  apply (intro conjI)
       apply (rule Deployment_defaults [OF assms(1)])
      apply (rule StatefulSet_defaults [OF assms(1)])
     apply (rule Service_defaults [OF assms])
    apply (rule ConfigMap_defaults [OF assms(1)])
   apply (rule Secret_defaults [OF assms(1)])
  apply (rule HorizontalPodAutoscaler_defaults [OF assms])
  done

theorem builders_never_fail_and_default_witness:
  "opts_of JUndefined = Inr (JObj []) \<and> \<not> arg_nullish (Val (JStr ''db''))
   \<and> field_of (Deployment (JStr ''api'') JUndefined) d_replicas = Inr (JNum 1)
   \<and> field_of (StatefulSet (JStr ''api'') JUndefined) ss_storage = Inr (JStr ''10Gi'')
   \<and> field_of (Service (JStr ''api'') (Val (JStr ''db'')) JUndefined) s_type
       = Inr (JStr ''ClusterIP'')
   \<and> field_of (HorizontalPodAutoscaler (JStr ''api'') (Val (JStr ''db'')) JUndefined)
        h_maxReplicas = Inr (JNum 10)"
proof -
  have t: "\<not> arg_nullish (Val (JStr ''db''))"
    by (simp add: nullish_def)
  show ?thesis
    using builders_never_fail_and_default
      [where ?options0.0 = JUndefined and options = "JObj []" and tgt = "Val (JStr ''db'')"
         and nm = "JStr ''api''" and cdat = JNull and sdat = "[]",
       OF opts_of_undefined t]
    by (auto simp: field_of_def nullish_def)
qed

text \<open>
  C7 as stated fails at the port: a StatefulSet and a Deployment built without a
  \<^verbatim>\<open>port\<close> option have the port undefined, not a default value.
\<close>

theorem port_without_default_counterexample:
  "field_of (StatefulSet (JStr ''db'') (JObj [])) ss_port = Inr JUndefined
   \<and> field_of (Deployment (JStr ''api'') (JObj [])) d_port = Inr JUndefined"
  using StatefulSet_defaults
      [where ?options0.0 = "JObj []" and options = "JObj []" and nm = "JStr ''db''",
       OF opts_of_obj]
    Deployment_defaults
      [where ?options0.0 = "JObj []" and options = "JObj []" and nm = "JStr ''api''",
       OF opts_of_obj]
  by (auto simp: field_of_def)


section \<open>Properties of the serialization of secrets\<close>

lemma index_of_nth:
  "distinct xs \<Longrightarrow> n < length xs \<Longrightarrow> index_of xs (xs ! n) = Some n"
proof (induction xs arbitrary: n)
  case Nil
  then show ?case by simp
next
  case (Cons y ys)
  show ?case
  proof (cases n)
    case 0
    then show ?thesis by simp
  next
    case (Suc m)
    with Cons.prems have "m < length ys" "ys ! m \<noteq> y" "distinct ys"
      by auto
    with Cons.IH [of m] Suc show ?thesis by simp
  qed
qed

lemma length_b64_alphabet: "length b64_alphabet = 64"
  by (simp add: b64_alphabet_def)

lemma distinct_b64_alphabet: "distinct b64_alphabet"
  by (simp add: b64_alphabet_def)

lemma pad_notin_alphabet: "CHR ''='' \<notin> set b64_alphabet"
  by (simp add: b64_alphabet_def)

lemma b64_index_char: "n < 64 \<Longrightarrow> b64_index (b64_char n) = Some n"
  by (simp add: b64_index_def b64_char_def index_of_nth distinct_b64_alphabet
      length_b64_alphabet)

lemma b64_char_not_pad: "n < 64 \<Longrightarrow> b64_char n \<noteq> CHR ''=''"
proof
  assume n: "n < 64" and eq: "b64_char n = CHR ''=''"
  from n have "b64_alphabet ! n \<in> set b64_alphabet"
    by (simp add: length_b64_alphabet)
  with eq pad_notin_alphabet show False
    by (simp add: b64_char_def)
qed

text \<open>Three bytes make four sextets, and the four sextets give the three bytes back.\<close>

lemma sextets:
  fixes x y z :: nat
  assumes "x < 256" "y < 256" "z < 256"
  shows "x div 4 < 64" "(x mod 4) * 16 + y div 16 < 64" "(y mod 16) * 4 + z div 64 < 64"
    "z mod 64 < 64" "(x mod 4) * 16 < 64" "(y mod 16) * 4 < 64"
  using assms by auto

lemma regroup1:
  fixes x y :: nat
  assumes "y < 256"
  shows "(x div 4) * 4 + ((x mod 4) * 16 + y div 16) div 16 = x"
proof -
  from assms have "y div 16 < 16" by simp
  then have "((x mod 4) * 16 + y div 16) div 16 = x mod 4" by simp
  then show ?thesis by simp
qed

lemma regroup2:
  fixes x y z :: nat
  assumes "y < 256" "z < 256"
  shows "(((x mod 4) * 16 + y div 16) mod 16) * 16 + ((y mod 16) * 4 + z div 64) div 4 = y"
proof -
  from assms have "z div 64 < 4" by simp
  then have a: "((y mod 16) * 4 + z div 64) div 4 = y mod 16" by simp
  from assms have "y div 16 < 16" by simp
  then have b: "((x mod 4) * 16 + y div 16) mod 16 = y div 16" by simp
  show ?thesis unfolding a b by simp
qed

lemma regroup3:
  fixes y z :: nat
  assumes "z < 256"
  shows "(((y mod 16) * 4 + z div 64) mod 4) * 64 + z mod 64 = z"
proof -
  from assms have "z div 64 < 4" by simp
  then have "((y mod 16) * 4 + z div 64) mod 4 = z div 64" by simp
  then show ?thesis by simp
qed

lemma regroup1_pad:
  fixes x :: nat
  shows "(x div 4) * 4 + ((x mod 4) * 16) div 16 = x"
  by simp

lemma regroup2_pad:
  fixes x y :: nat
  assumes "y < 256"
  shows "(((x mod 4) * 16 + y div 16) mod 16) * 16 + ((y mod 16) * 4) div 4 = y"
  using regroup2 [of y 0 x] assms by simp

lemma from_base64_toString_base64: "from_base64 (toString_base64 bs) = Some bs"
proof (induction bs rule: toString_base64.induct)
  case 1
  show ?case by simp
next
  case (2 a)
  let ?x = "of_char a :: nat"
  have x: "?x < 256" by simp
  show ?case
    using sextets(1,5) [OF x x x] regroup1_pad [of ?x]
    by (simp add: Let_def b64_index_char)
next
  case (3 a b)
  let ?x = "of_char a :: nat" and ?y = "of_char b :: nat"
  have x: "?x < 256" and y: "?y < 256" by simp_all
  show ?case
    using sextets(1,2,6) [OF x y y] regroup1 [OF y, of ?x] regroup2_pad [OF y, of ?x]
    by (simp add: Let_def b64_index_char b64_char_not_pad)
next
  case (4 a b c rest)
  let ?x = "of_char a :: nat" and ?y = "of_char b :: nat" and ?z = "of_char c :: nat"
  have x: "?x < 256" and y: "?y < 256" and z: "?z < 256" by simp_all
  show ?case
    using 4 sextets(1,2,3,4) [OF x y z] regroup1 [OF y, of ?x] regroup2 [OF y z, of ?x]
      regroup3 [OF z, of ?y]
    by (simp add: Let_def b64_index_char b64_char_not_pad)
qed

lemma toString_base64_examples:
  "toString_base64 ''Man'' = ''TWFu''"
  "toString_base64 ''hello'' = ''aGVsbG8=''"
  "toString_base64 ''super-secret-key'' = ''c3VwZXItc2VjcmV0LWtleQ==''"
  by code_simp+

lemma obj_set_fresh: "k \<notin> fst ` set kvs \<Longrightarrow> obj_set kvs k v = kvs @ [(k, v)]"
  by (induction kvs) auto

lemma keys_obj_set: "fst ` set (obj_set ob k v) = insert k (fst ` set ob)"
proof (induction ob)
  case Nil
  show ?case by simp
next
  case (Cons kv ob)
  obtain k' v' where kv: "kv = (k', v')" by (cases kv)
  show ?case
  proof (cases "k' = k")
    case True
    with kv show ?thesis by simp
  next
    case False
    with kv Cons.IH show ?thesis by (simp add: insert_commute)
  qed
qed

lemma keys_assign_prop:
  "''__proto__'' \<notin> fst ` set ob \<Longrightarrow> ''__proto__'' \<notin> fst ` set (assign_prop ob k v)"
  by (simp add: assign_prop_def keys_obj_set)

text \<open>No run of the loop gives the output the key \<^verbatim>\<open>__proto__\<close>.\<close>

lemma encode_entries_no_proto:
  "''__proto__'' \<notin> fst ` set acc \<Longrightarrow> ''__proto__'' \<notin> fst ` set (encode_entries kvs acc)"
proof (induction kvs arbitrary: acc)
  case Nil
  then show ?case by simp
next
  case (Cons kv kvs)
  obtain k v where kv: "kv = (k, v)" by (cases kv)
  from Cons.prems have "''__proto__'' \<notin> fst ` set (assign_prop acc k (encode_value v))"
    by (rule keys_assign_prop)
  from Cons.IH [OF this] kv show ?case by simp
qed

text \<open>
  The loop over the entries of an object, whose keys are distinct, keeps every entry in
  place but the one under \<^verbatim>\<open>__proto__\<close>, which it leaves out.
\<close>

lemma encode_entries_distinct:
  "distinct (map fst acc @ map fst kvs) \<Longrightarrow>
   encode_entries kvs acc
     = acc @ map (\<lambda>(k, v). (k, encode_value v)) (filter (\<lambda>kv. fst kv \<noteq> ''__proto__'') kvs)"
proof (induction kvs arbitrary: acc)
  case Nil
  then show ?case by simp
next
  case (Cons kv kvs)
  obtain k v where kv: "kv = (k, v)" by (cases kv)
  show ?case
  proof (cases "k = ''__proto__''")
    case True
    from Cons.prems have "distinct (map fst acc @ map fst kvs)"
      by auto
    from Cons.IH [OF this] True kv show ?thesis
      by (simp add: assign_prop_def)
  next
    case False
    from Cons.prems kv have fresh: "k \<notin> fst ` set acc"
      by auto
    from Cons.prems kv
    have "distinct (map fst (acc @ [(k, encode_value v)]) @ map fst kvs)"
      by auto
    from Cons.IH [OF this] fresh kv False show ?thesis
      by (simp add: assign_prop_def obj_set_fresh)
  qed
qed

lemma Secret_toYAML_data:
  "distinct (map fst (sec_data c)) \<Longrightarrow>
   at_path (Secret_toYAML c) [''data'']
     = JObj (map (\<lambda>(k, v). (k, encode_value v))
               (filter (\<lambda>kv. fst kv \<noteq> ''__proto__'') (sec_data c)))"
  using encode_entries_distinct [of "[]" "sec_data c"]
  by (simp add: Secret_toYAML_def Let_def)

lemma Secret_toYAML_no_proto:
  "''__proto__'' \<notin> fst ` set (own_entries (at_path (Secret_toYAML c) [''data'']))"
  using encode_entries_no_proto [of "[]" "sec_data c"]
  by (simp add: Secret_toYAML_def Let_def)

lemma decode_encode_value: "decode_value (encode_value (JStr s)) = Some s"
  by (simp add: decode_value_def encode_value_def Buffer_from_def toString_utf8_def
      from_base64_toString_base64)

text \<open>
  When no key of the data is \<^verbatim>\<open>__proto__\<close>, the serialization of a secret bundle with string
  values (well-formed text, as strings are modelled) is as the specification says: the \<^verbatim>\<open>data\<close> field of the document has the same keys
  in the same order, the value under each key is the base64 encoding of the UTF-8 bytes
  of the original value, and decoding every value gives the original mapping back.
\<close>

lemma secret_round_trip_without_proto:
  assumes "distinct (map fst kss)"
      and "''__proto__'' \<notin> fst ` set kss"
      and "sec_data c = map (\<lambda>(k, s). (k, JStr s)) kss"
  shows "at_path (Secret_toYAML c) [''data'']
           = JObj (map (\<lambda>(k, s). (k, JStr (toString_base64 (Buffer_from s)))) kss)
     \<and> map (\<lambda>(k, v). (k, decode_value v)) (own_entries (at_path (Secret_toYAML c) [''data'']))
           = map (\<lambda>(k, s). (k, Some s)) kss"
proof -
  from assms(1,3) have "distinct (map fst (sec_data c))"
    by (simp add: comp_def case_prod_unfold)
  moreover from assms(2,3)
  have "filter (\<lambda>kv. fst kv \<noteq> ''__proto__'') (sec_data c) = sec_data c"
    by (force simp: filter_id_conv)
  ultimately have data: "at_path (Secret_toYAML c) [''data'']
      = JObj (map (\<lambda>(k, s). (k, encode_value (JStr s))) kss)"
    using Secret_toYAML_data [of c] assms(3)
    by (simp add: comp_def case_prod_unfold)
  have enc: "at_path (Secret_toYAML c) [''data'']
      = JObj (map (\<lambda>(k, s). (k, JStr (toString_base64 (Buffer_from s)))) kss)"
    unfolding data by (simp add: encode_value_def)
  have dec: "map (\<lambda>(k, v). (k, decode_value v))
               (own_entries (at_path (Secret_toYAML c) [''data'']))
             = map (\<lambda>(k, s). (k, Some s)) kss"
    unfolding data by (simp add: comp_def case_prod_unfold decode_encode_value)
  from enc dec show ?thesis by (rule conjI)
qed

lemma secret_round_trip_example:
  "at_path (Secret_toYAML
        \<lparr> kind = ''Secret'', name = JStr ''app-secrets'', namespace = JStr ''default'',
          labels = [(''app'', JStr ''app-secrets''), (''managed-by'', JStr ''mini-kuber'')],
          annotations = [],
          sec_data = [(''api_key'', JStr ''super-secret-key''), (''db_password'', JStr ''hello'')],
          sec_type = JStr ''Opaque'' \<rparr>) [''data'']
       = JObj [(''api_key'', JStr ''c3VwZXItc2VjcmV0LWtleQ==''),
               (''db_password'', JStr ''aGVsbG8='')]"
proof -
  have d: "distinct (map fst [(''api_key'', ''super-secret-key''), (''db_password'', ''hello'')])"
    by simp
  have p: "''__proto__'' \<notin> fst ` set [(''api_key'', ''super-secret-key''), (''db_password'', ''hello'')]"
    by simp
  show ?thesis
    using secret_round_trip_without_proto [OF d p, of
        "\<lparr> kind = ''Secret'', name = JStr ''app-secrets'', namespace = JStr ''default'',
          labels = [(''app'', JStr ''app-secrets''), (''managed-by'', JStr ''mini-kuber'')],
          annotations = [],
          sec_data = [(''api_key'', JStr ''super-secret-key''), (''db_password'', JStr ''hello'')],
          sec_type = JStr ''Opaque'' \<rparr>"]
    by (simp add: Buffer_from_def b64_char_def b64_alphabet_def)
qed

lemma proto_secret_data:
  "at_path (Secret_toYAML proto_secret) [''data''] = JObj [(''a'', JStr ''eQ=='')]"
  by (simp add: Secret_toYAML_def proto_secret_def assign_prop_def encode_value_def
      Buffer_from_def b64_char_def b64_alphabet_def)

text \<open>
  C2 holds for every secret bundle that has no key \<^verbatim>\<open>__proto__\<close>
  (\<open>secret_round_trip_without_proto\<close>), and the program breaks it for a bundle that has
  one. Let the data of a secret bundle be an object with string values, the entries
  \<open>kss\<close>, and let \<^verbatim>\<open>__proto__\<close> be one of its keys. Then the \<^verbatim>\<open>data\<close> field of the document
  has no entry under that key, so decoding the values of the output does not give the
  original mapping back: the assignment \<^verbatim>\<open>encodedData[key] = ...\<close> loses the entry.
\<close>

theorem secret_proto_entry_lost:
  assumes "sec_data c = map (\<lambda>(k, s). (k, JStr s)) kss"
      and "''__proto__'' \<in> fst ` set kss"
  shows "''__proto__'' \<in> fst ` set (sec_data c)
     \<and> ''__proto__'' \<notin> fst ` set (own_entries (at_path (Secret_toYAML c) [''data'']))
     \<and> map (\<lambda>(k, v). (k, decode_value v)) (own_entries (at_path (Secret_toYAML c) [''data'']))
           \<noteq> map (\<lambda>(k, s). (k, Some s)) kss"
proof -
  let ?out = "own_entries (at_path (Secret_toYAML c) [''data''])"
  from assms have given: "''__proto__'' \<in> fst ` set (sec_data c)"
    by force
  have lost: "''__proto__'' \<notin> fst ` set ?out"
    by (rule Secret_toYAML_no_proto)
  have differ: "map (\<lambda>(k, v). (k, decode_value v)) ?out \<noteq> map (\<lambda>(k, s). (k, Some s)) kss"
  proof
    assume "map (\<lambda>(k, v). (k, decode_value v)) ?out = map (\<lambda>(k, s). (k, Some s)) kss"
    then have "map fst (map (\<lambda>(k, v). (k, decode_value v)) ?out)
        = map fst (map (\<lambda>(k, s). (k, Some s)) kss)"
      by simp
    then have "map fst ?out = map fst kss"
      by (simp add: comp_def case_prod_unfold)
    then have "fst ` set ?out = fst ` set kss"
      by (metis set_map)
    with assms(2) lost show False by simp
  qed
  from given lost differ show ?thesis by blast
qed

theorem secret_proto_entry_lost_witness:
  "sec_data proto_secret = map (\<lambda>(k, s). (k, JStr s)) [(''__proto__'', ''x''), (''a'', ''y'')]
   \<and> ''__proto__'' \<in> fst ` set [(''__proto__'', ''x''), (''a'', ''y'')]
   \<and> ''__proto__'' \<notin> fst ` set (own_entries (at_path (Secret_toYAML proto_secret) [''data'']))
   \<and> at_path (Secret_toYAML proto_secret) [''data''] = JObj [(''a'', JStr ''eQ=='')]"
proof -
  have a: "sec_data proto_secret
      = map (\<lambda>(k, s). (k, JStr s)) [(''__proto__'', ''x''), (''a'', ''y'')]"
    by (simp add: proto_secret_def)
  have b: "''__proto__'' \<in> fst ` set [(''__proto__'', ''x''), (''a'', ''y'')]"
    by simp
  from secret_proto_entry_lost [OF a b]
  have c: "''__proto__'' \<notin> fst ` set (own_entries (at_path (Secret_toYAML proto_secret) [''data'']))"
    by blast
  from a b c proto_secret_data show ?thesis by blast
qed


section \<open>Properties of submission\<close>

lemma visit_resources:
  "visit (map Res rs) acc w
     = (Inr (acc @ map toYAML rs), w\<lparr>trace := trace w @ map announce rs\<rparr>)"
  by (induction rs arbitrary: acc w) (simp_all add: log_def announce_def)

lemma print_docs_logs:
  "\<exists>ls. snd (print_docs dump ds w) = w\<lparr>trace := trace w @ map Log ls\<rparr>"
proof (induction ds arbitrary: w)
  case Nil
  have "w = w\<lparr>trace := trace w @ map Log []\<rparr>" by simp
  then show ?case by (metis print_docs.simps(1) snd_conv)
next
  case (Cons d ds)
  show ?case
  proof (cases "dump d")
    case (Inl e)
    then have "snd (print_docs dump (d # ds) w)
        = w\<lparr>trace := trace w @ map Log [Separator]\<rparr>"
      by (simp add: log_def)
    then show ?thesis by blast
  next
    case (Inr s)
    let ?w = "log (Dumped s) (log Separator w)"
    from Cons.IH [of ?w] obtain ls where
      "snd (print_docs dump ds ?w) = ?w\<lparr>trace := trace ?w @ map Log ls\<rparr>" by blast
    with Inr have "snd (print_docs dump (d # ds) w)
        = w\<lparr>trace := trace w @ map Log (Separator # Dumped s # ls)\<rparr>"
      by (simp add: log_def)
    then show ?thesis by blast
  qed
qed

lemma dry_run_body_logs:
  "\<exists>ls. snd (dry_run_body rt docs w)
          = w\<lparr>trace := trace w @ Log DryRunHeader # map Log ls\<rparr>"
proof (cases "require_yaml rt")
  case (Inl e)
  then have "snd (dry_run_body rt docs w)
      = w\<lparr>trace := trace w @ Log DryRunHeader # map Log []\<rparr>"
    by (simp add: dry_run_body_def log_def)
  then show ?thesis by blast
next
  case (Inr dump)
  let ?w = "log DryRunHeader w"
  obtain ls where ls: "snd (print_docs dump docs ?w) = ?w\<lparr>trace := trace ?w @ map Log ls\<rparr>"
    using print_docs_logs by blast
  have "snd (dry_run_body rt docs w) = snd (print_docs dump docs ?w)"
    using Inr by (simp add: dry_run_body_def Let_def split: prod.splits option.splits)
  with ls have "snd (dry_run_body rt docs w)
      = w\<lparr>trace := trace w @ Log DryRunHeader # map Log ls\<rparr>"
    by (simp add: log_def)
  then show ?thesis by blast
qed

lemma dry_run_body_no_yaml:
  "require_yaml rt = Inl e \<Longrightarrow> fst (dry_run_body rt docs w) = Inl e"
  by (simp add: dry_run_body_def Let_def)

text \<open>After the first loop \<^verbatim>\<open>deploy\<close> has announced every resource, in order.\<close>

lemma deploy_visited:
  assumes "actualResources args = Inr (map Res rs)"
  shows "deploy rt args w =
    (let w1 = w\<lparr>trace := trace w @ Log (Deploying (length rs)) # map announce rs\<rparr>;
         allYAML = map toYAML rs
     in if dryRun args then dry_run_body rt allYAML w1
        else if \<not> apply_flag args then (Inr True, w1)
        else (case apply_body rt allYAML w1 of
                (Inl e, w2) \<Rightarrow> (Inr False, handler e w2)
              | (Inr b, w2) \<Rightarrow> (Inr b, w2)))"
  using assms by (simp add: deploy_def visit_resources log_def Let_def)

text \<open>The shapes of the argument list: with dry-run options, without options, with other options.\<close>

lemma dry_run_args:
  assumes "truthy (js_prop (JObj kvs) ''dryRun'')"
  shows "actualResources (map Res rs @ [Val (JObj kvs)]) = Inr (map Res rs)"
    and "dryRun (map Res rs @ [Val (JObj kvs)])"
proof -
  from assms have "js_prop (JObj kvs) ''dryRun'' \<noteq> JUndefined" by auto
  then show "actualResources (map Res rs @ [Val (JObj kvs)]) = Inr (map Res rs)"
    by (simp add: actualResources_def options_arg_def arg_prop_def nullish_def)
  from assms show "dryRun (map Res rs @ [Val (JObj kvs)])"
    by (simp add: dryRun_def options_arg_def)
qed

lemma res_prop_no_flags [simp]:
  "res_prop r ''dryRun'' = JUndefined" "res_prop r ''apply'' = JUndefined"
  by (cases r; simp add: res_prop_def base_fields_def)+

lemma plain_args:
  assumes "rs \<noteq> []"
  shows "actualResources (map Res rs) = Inr (map Res rs)"
    and "\<not> dryRun (map Res rs)" and "apply_flag (map Res rs)"
  using assms
  by (simp_all add: actualResources_def dryRun_def apply_flag_def options_arg_def last_map
      arg_prop_def)

lemma options_args:
  assumes "js_prop (JObj kvs) ''dryRun'' \<noteq> JUndefined"
      and "\<not> truthy (js_prop (JObj kvs) ''dryRun'')"
      and "js_prop (JObj kvs) ''apply'' \<noteq> JBool False"
  shows "actualResources (map Res rs @ [Val (JObj kvs)]) = Inr (map Res rs)"
    and "\<not> dryRun (map Res rs @ [Val (JObj kvs)])"
    and "apply_flag (map Res rs @ [Val (JObj kvs)])"
  using assms
  by (simp_all add: actualResources_def dryRun_def apply_flag_def options_arg_def
      arg_prop_def nullish_def)

text \<open>Once the documents are dumped, the apply branch writes, runs and removes.\<close>

lemma apply_body_written:
  assumes "require_yaml rt = Inr dump" and "concat_docs dump docs 0 [] = Inr y"
  shows "apply_body rt docs w =
    (case execSync rt (''kubectl apply -f '' @ tempFile rt) ((files w)(tempFile rt \<mapsto> y)) of
       Some e \<Rightarrow>
         (Inl e, w\<lparr>files := (files w)(tempFile rt := None),
                   trace := trace w @ [WriteFile (tempFile rt) y,
                                       Exec (''kubectl apply -f '' @ tempFile rt),
                                       Unlink (tempFile rt)]\<rparr>)
     | None \<Rightarrow>
         (Inr True, w\<lparr>files := (files w)(tempFile rt := None),
                      trace := trace w @ [WriteFile (tempFile rt) y,
                                          Exec (''kubectl apply -f '' @ tempFile rt),
                                          Log Successful, Unlink (tempFile rt)]\<rparr>))"
  using assms
  by (simp add: apply_body_def Let_def writeFileSync_def unlinkSync_def log_def
      split: option.splits)

lemma join_docs_Cons: "join_docs (s # ss) = s @ concat (map (\<lambda>t. separator @ t) ss)"
  by (induction ss arbitrary: s) simp_all

lemma concat_docs_later:
  "map dump docs = map Inr ss \<Longrightarrow> 0 < i \<Longrightarrow>
   concat_docs dump docs i y = Inr (y @ concat (map (\<lambda>t. separator @ t) ss))"
proof (induction docs arbitrary: ss i y)
  case Nil
  then show ?case by simp
next
  case (Cons d ds)
  then obtain s ss' where ss: "ss = s # ss'" "dump d = Inr s" "map dump ds = map Inr ss'"
    by (cases ss) auto
  from Cons.IH [OF ss(3), of "i + 1" "y @ separator @ s"] Cons.prems(2) ss show ?case
    by simp
qed

lemma concat_docs_join:
  assumes "map dump docs = map Inr ss"
  shows "concat_docs dump docs 0 [] = Inr (join_docs ss)"
proof (cases docs)
  case Nil
  with assms show ?thesis by simp
next
  case (Cons d ds)
  with assms obtain s ss' where ss: "ss = s # ss'" "dump d = Inr s" "map dump ds = map Inr ss'"
    by (cases ss) auto
  from concat_docs_later [OF ss(3), of 1 s] Cons ss show ?thesis
    by (simp add: join_docs_Cons)
qed

text \<open>In the apply branch every error is caught: the call returns a boolean.\<close>

lemma apply_mode_returns:
  assumes "actualResources args = Inr (map Res rs)" and "\<not> dryRun args"
      and "apply_flag args"
  shows "\<exists>b. fst (deploy rt args w) = Inr b"
  using assms(2,3)
  by (auto simp: deploy_visited [OF assms(1)] Let_def split: prod.splits sum.splits)

lemma apply_mode_no_yaml:
  assumes "actualResources args = Inr (map Res rs)" and "\<not> dryRun args"
      and "apply_flag args" and "require_yaml rt = Inl e"
  shows "fst (deploy rt args w) = Inr False"
  using assms(2,3,4)
  by (simp add: deploy_visited [OF assms(1)] Let_def apply_body_def)


text \<open>
  C4. For every list of resources \<open>rs\<close>, a call of \<^verbatim>\<open>deploy\<close> with the resources followed by
  options whose \<^verbatim>\<open>dryRun\<close> is truthy leaves the file system as it was and adds to the history
  nothing but printed lines: no file is written or removed and no process is run,
  whatever the runtime does. The lines begin with the count and one announcement for each
  resource, in order, and only then comes the header of the dry run.
\<close>

theorem dry_run_no_side_effects:
  assumes "truthy (js_prop (JObj kvs) ''dryRun'')"
  shows "\<exists>new ls.
       files (snd (deploy rt (map Res rs @ [Val (JObj kvs)]) w)) = files w
     \<and> trace (snd (deploy rt (map Res rs @ [Val (JObj kvs)]) w)) = trace w @ new
     \<and> new = [Log (Deploying (length rs))] @ map announce rs @ [Log DryRunHeader]
               @ map Log ls
     \<and> (\<forall>e \<in> set new. \<exists>l. e = Log l)"
proof -
  let ?args = "map Res rs @ [Val (JObj kvs)]"
  let ?w1 = "w\<lparr>trace := trace w @ Log (Deploying (length rs)) # map announce rs\<rparr>"
  note mode = dry_run_args [OF assms, of rs]
  have d: "deploy rt ?args w = dry_run_body rt (map toYAML rs) ?w1"
    using mode(2) by (simp add: deploy_visited [OF mode(1)] Let_def)
  obtain ls where ls: "snd (dry_run_body rt (map toYAML rs) ?w1)
      = ?w1\<lparr>trace := trace ?w1 @ Log DryRunHeader # map Log ls\<rparr>"
    using dry_run_body_logs by blast
  let ?new = "[Log (Deploying (length rs))] @ map announce rs @ [Log DryRunHeader]
                @ map Log ls"
  have f: "files (snd (deploy rt ?args w)) = files w"
    unfolding d ls by simp
  have t: "trace (snd (deploy rt ?args w)) = trace w @ ?new"
    unfolding d ls by simp
  have l: "\<forall>e \<in> set ?new. \<exists>l. e = Log l"
    by (auto simp: announce_def)
  from f t l show ?thesis by blast
qed

theorem dry_run_no_side_effects_witness:
  "truthy (js_prop (JObj [(''dryRun'', JBool True)]) ''dryRun'')
   \<and> files (snd (deploy example_runtime
        [Res (RConfigMap example_config), Res (RSecret example_secret),
         Val (JObj [(''dryRun'', JBool True)])] empty_world)) = Map.empty
   \<and> take 4 (trace (snd (deploy example_runtime
        [Res (RConfigMap example_config), Res (RSecret example_secret),
         Val (JObj [(''dryRun'', JBool True)])] empty_world)))
       = [Log (Deploying 2), Log (Announce ''ConfigMap'' ''app-config''),
          Log (Announce ''Secret'' ''app-secrets''), Log DryRunHeader]"
proof -
  have a: "truthy (js_prop (JObj [(''dryRun'', JBool True)]) ''dryRun'')"
    by simp
  show ?thesis
    using dry_run_no_side_effects [OF a, of example_runtime
        "[RConfigMap example_config, RSecret example_secret]" empty_world]
    by (auto simp: empty_world_def announce_def res_prop_def base_fields_def
        example_config_def example_secret_def)
qed

text \<open>
  C5. Let a call of \<^verbatim>\<open>deploy\<close> reach the apply branch (neither stopped by \<^verbatim>\<open>dryRun\<close> nor by
  \<^verbatim>\<open>apply: false\<close>) with the resources \<open>rs\<close>, and let the documents be dumped to the text
  \<open>y\<close>. Then after the call there is no file at the path of the transient file, whether
  the external tool succeeded or failed, and nothing else in the file system has
  changed; when the tool fails the call returns false, when it succeeds true.
\<close>

theorem apply_removes_transient_file:
  assumes "actualResources args = Inr (map Res rs)" and "\<not> dryRun args"
      and "apply_flag args"
      and "require_yaml rt = Inr dump"
      and "concat_docs dump (map toYAML rs) 0 [] = Inr y"
  shows "files (snd (deploy rt args w)) = (files w)(tempFile rt := None)
     \<and> (execSync rt (''kubectl apply -f '' @ tempFile rt) ((files w)(tempFile rt \<mapsto> y))
           \<noteq> None
          \<longrightarrow> fst (deploy rt args w) = Inr False)
     \<and> (execSync rt (''kubectl apply -f '' @ tempFile rt) ((files w)(tempFile rt \<mapsto> y))
           = None
          \<longrightarrow> fst (deploy rt args w) = Inr True)"
  using assms(2,3)
  by (auto simp: deploy_visited [OF assms(1)] Let_def apply_body_written [OF assms(4,5)]
      handler_def log_def split: option.splits)

lemma example_documents:
  "toYAML (RConfigMap example_config) = ConfigMap_toYAML example_config"
  "toYAML (RSecret example_secret) = Secret_toYAML example_secret"
  "at_path (ConfigMap_toYAML c) [''kind''] = JStr ''ConfigMap''"
  "at_path (Secret_toYAML d) [''kind''] = JStr ''Secret''"
  by (simp_all add: ConfigMap_toYAML_def Secret_toYAML_def Let_def)

lemma example_dumps:
  "map (\<lambda>v. Inr (js_String (at_path v [''kind''])) :: error + string)
     (map toYAML [RConfigMap example_config, RSecret example_secret])
   = map Inr [''ConfigMap'', ''Secret'']"
  using example_documents(3) [of example_config] example_documents(4) [of example_secret]
  by simp

theorem apply_removes_transient_file_witness:
  "execSync example_runtime (''kubectl apply -f '' @ tempFile example_runtime)
      ((files empty_world)(tempFile example_runtime \<mapsto> ''ConfigMap'' @ separator @ ''Secret''))
     \<noteq> None
   \<and> fst (deploy example_runtime
        [Res (RConfigMap example_config), Res (RSecret example_secret)] empty_world)
       = Inr False
   \<and> files (snd (deploy example_runtime
        [Res (RConfigMap example_config), Res (RSecret example_secret)] empty_world))
        (tempFile example_runtime) = None"
proof -
  let ?rs = "[RConfigMap example_config, RSecret example_secret]"
  let ?dump = "\<lambda>v. Inr (js_String (at_path v [''kind''])) :: error + string"
  have rs: "?rs \<noteq> []" by simp
  have y: "require_yaml example_runtime = Inr ?dump"
    by (simp add: example_runtime_def)
  have c: "concat_docs ?dump (map toYAML ?rs) 0 [] = Inr (''ConfigMap'' @ separator @ ''Secret'')"
    using concat_docs_join [OF example_dumps] by simp
  have x: "execSync example_runtime (''kubectl apply -f '' @ tempFile example_runtime)
      ((files empty_world)(tempFile example_runtime \<mapsto> ''ConfigMap'' @ separator @ ''Secret''))
     \<noteq> None"
    by (simp add: example_runtime_def)
  show ?thesis
    using apply_removes_transient_file [OF plain_args [OF rs] y c, of empty_world] x
    by simp
qed



text \<open>
  C6 holds in the apply branch (\<open>apply_mode_returns\<close>, \<open>apply_mode_no_yaml\<close>) and fails in
  the dry run: there \<^verbatim>\<open>require('js-yaml')\<close> stands outside the \<^verbatim>\<open>try\<close> block, so when the
  module is missing its error leaves \<^verbatim>\<open>deploy\<close> uncaught, and no boolean is returned.
\<close>

theorem dry_run_yaml_failure_escapes:
  assumes "truthy (js_prop (JObj kvs) ''dryRun'')" and "require_yaml rt = Inl e"
  shows "fst (deploy rt (map Res rs @ [Val (JObj kvs)]) w) = Inl e"
proof -
  note mode = dry_run_args [OF assms(1), of rs]
  show ?thesis
    using mode(2)
    by (simp add: deploy_visited [OF mode(1)] Let_def dry_run_body_no_yaml [OF assms(2)])
qed

theorem dry_run_yaml_failure_escapes_witness:
  "truthy (js_prop (JObj [(''dryRun'', JBool True)]) ''dryRun'')
   \<and> require_yaml (example_runtime\<lparr>require_yaml := Inl (Error ''Cannot find module js-yaml'')\<rparr>)
       = Inl (Error ''Cannot find module js-yaml'')
   \<and> fst (deploy (example_runtime\<lparr>require_yaml := Inl (Error ''Cannot find module js-yaml'')\<rparr>)
        [Res (RConfigMap example_config), Val (JObj [(''dryRun'', JBool True)])] empty_world)
       = Inl (Error ''Cannot find module js-yaml'')"
proof -
  have a: "truthy (js_prop (JObj [(''dryRun'', JBool True)]) ''dryRun'')"
    by simp
  have b: "require_yaml
      (example_runtime\<lparr>require_yaml := Inl (Error ''Cannot find module js-yaml'')\<rparr>)
       = Inl (Error ''Cannot find module js-yaml'')"
    by simp
  show ?thesis
    using dry_run_yaml_failure_escapes [OF a b, of "[RConfigMap example_config]" empty_world]
    by simp
qed

end
